theory Spec2Isabelle
  imports Complex_Main "HOL-Library.Monad_Syntax"
begin

section \<open>Go values\<close>

text \<open>
  Conventions of the embedding of \<^verbatim>\<open>fpdf.go\<close>.

  \<^item> A Go \<^verbatim>\<open>string\<close> and a \<^verbatim>\<open>[]byte\<close> are both a \<^typ>\<open>string\<close> (a list of bytes).
  \<^item> A Go \<^verbatim>\<open>int\<close> is an \<^typ>\<open>int\<close>; the counters of the program (object numbers, page
    numbers, buffer lengths) stay far below \<open>2^63\<close>, so no wrap-around is written out.
  \<^item> A \<^verbatim>\<open>float64\<close> is a value of an arbitrary type \<open>'r\<close> that only has the syntax of
    \<open>+\<close>, \<open>-\<close>, \<open>*\<close>, \<open>/\<close>, \<open><\<close> and \<open>0\<close> (no law of arithmetic is assumed), so that
    every theorem holds for IEEE-754 doubles as well as for exact numbers.
  \<^item> A run-time panic (index or slice out of range) is the value \<open>None\<close> of an option;
    the latched error \<^verbatim>\<open>f.err\<close> is a field of the document.
\<close>

definition index :: "'a list \<Rightarrow> int \<Rightarrow> 'a option" where
  \<comment> \<open>\<^verbatim>\<open>xs[i]\<close>: panics out of range\<close>
  "index xs i = (if 0 \<le> i \<and> i < int (length xs) then Some (xs ! nat i) else None)"

definition slice :: "'a list \<Rightarrow> int \<Rightarrow> int \<Rightarrow> 'a list option" where
  \<comment> \<open>\<^verbatim>\<open>xs[lo:hi]\<close>, the capacity of \<open>xs\<close> taken to be its length\<close>
  "slice xs lo hi =
     (if 0 \<le> lo \<and> lo \<le> hi \<and> hi \<le> int (length xs)
      then Some (take (nat (hi - lo)) (drop (nat lo) xs)) else None)"

record fontBoxType =
  Xmin :: int
  Ymin :: int
  Xmax :: int
  Ymax :: int

record fontDescType =
  Ascent :: int
  Descent :: int
  CapHeight :: int
  Flags :: int
  FontBBox :: fontBoxType
  ItalicAngle :: int
  StemV :: int
  MissingWidth :: int

text \<open>
  Modelled from the spec: the struct \<^verbatim>\<open>fontDefType\<close> is declared outside \<^verbatim>\<open>fpdf.go\<close>; its
  fields are the ones \<^verbatim>\<open>fpdf.go\<close> reads and writes, and \<open>Cw\<close> is the 256-entry table of
  character widths (code to width in thousandths of the font size).
\<close>

record fontDefType =
  Tp :: string
  Name :: string
  Desc :: fontDescType
  Up :: int
  Ut :: int
  Cw :: "int list"
  Diff :: string
  File :: string
  Size1 :: int
  Size2 :: int
  OriginalSize :: int
  I :: int
  N :: int
  DiffN :: int

text \<open>
  What \<^verbatim>\<open>fpdf.go\<close> takes from the Go library, from the files of the package that are not
  part of it (\<^verbatim>\<open>sprintf\<close>, \<^verbatim>\<open>sliceCompress\<close>, \<^verbatim>\<open>sliceUncompress\<close>, \<^verbatim>\<open>FPDF_VERSION\<close>) and from
  the file system is a parameter of the model.
\<close>

record 'r golib =
  flt :: "rat \<Rightarrow> 'r"  \<comment> \<open>the \<^verbatim>\<open>float64\<close> of a constant expression or of an integer\<close>
  feq :: "'r \<Rightarrow> 'r \<Rightarrow> bool"  \<comment> \<open>\<^verbatim>\<open>==\<close> on \<^verbatim>\<open>float64\<close>\<close>
  ftoi :: "'r \<Rightarrow> int"  \<comment> \<open>the conversion \<^verbatim>\<open>int(x)\<close>\<close>
  fmt2 :: "'r \<Rightarrow> string"  \<comment> \<open>\<^verbatim>\<open>sprintf("%.2f", x)\<close>\<close>
  fmt3 :: "'r \<Rightarrow> string"  \<comment> \<open>\<^verbatim>\<open>sprintf("%.3f", x)\<close>\<close>
  ToUpper :: "string \<Rightarrow> string"
  ToLower :: "string \<Rightarrow> string"
  runes :: "string \<Rightarrow> int list"  \<comment> \<open>the code points of \<^verbatim>\<open>for _, ch := range s\<close>\<close>
  Join :: "string \<Rightarrow> string \<Rightarrow> string"  \<comment> \<open>\<^verbatim>\<open>path.Join\<close>\<close>
  ReadFile :: "string \<Rightarrow> string + string"  \<comment> \<open>\<open>Inl\<close> the error\<close>
  Unmarshal :: "string \<Rightarrow> string option \<times> fontDefType"  \<comment> \<open>\<^verbatim>\<open>json.Unmarshal(buf, &def)\<close>\<close>
  sliceCompress :: "string \<Rightarrow> string"
  sliceUncompress :: "string \<Rightarrow> string + string"  \<comment> \<open>\<open>Inl\<close> the error\<close>
  Now :: string  \<comment> \<open>\<^verbatim>\<open>time.Now().Format("20060102150405")\<close>\<close>
  FPDF_VERSION :: string

section \<open>PNG: separating the alpha channel\<close>

text \<open>
  The two loops of \<^verbatim>\<open>parsepngstream\<close> for colour types 4 (gray and alpha) and 6 (RGB and
  alpha). \<open>gray_row\<close> and \<open>rgb_row\<close> are the inner loops over the pixels of a row.
\<close>

function gray_row ::
  "string \<Rightarrow> int \<Rightarrow> int \<Rightarrow> int \<Rightarrow> string \<Rightarrow> string \<Rightarrow> (string \<times> string) option" where
  "gray_row data width k elPos color alpha =
     (if k < width then do {
        c \<leftarrow> index data elPos;
        a \<leftarrow> index data (elPos + 1);
        gray_row data width (k + 1) (elPos + 2) (color @ [c]) (alpha @ [a])
      } else Some (color, alpha))"
  by pat_completeness auto
termination
  by (relation "measure (\<lambda>(data, width, k, elPos, color, alpha). nat (width - k))") auto

function gray_rows ::
  "string \<Rightarrow> int \<Rightarrow> int \<Rightarrow> int \<Rightarrow> string \<Rightarrow> string \<Rightarrow> (string \<times> string) option" where
  "gray_rows data width height i color alpha =
     (if i < height then do {
        let pos = (1 + 2 * width) * i;
        ft \<leftarrow> index data pos;
        (color', alpha') \<leftarrow> gray_row data width 0 (pos + 1) (color @ [ft]) (alpha @ [ft]);
        gray_rows data width height (i + 1) color' alpha'
      } else Some (color, alpha))"
  by pat_completeness auto
termination
  by (relation "measure (\<lambda>(data, width, height, i, color, alpha). nat (height - i))") auto

function rgb_row ::
  "string \<Rightarrow> int \<Rightarrow> int \<Rightarrow> int \<Rightarrow> string \<Rightarrow> string \<Rightarrow> (string \<times> string) option" where
  "rgb_row data width k elPos color alpha =
     (if k < width then do {
        c \<leftarrow> slice data elPos (elPos + 3);
        a \<leftarrow> index data (elPos + 3);
        rgb_row data width (k + 1) (elPos + 4) (color @ c) (alpha @ [a])
      } else Some (color, alpha))"
  by pat_completeness auto
termination
  by (relation "measure (\<lambda>(data, width, k, elPos, color, alpha). nat (width - k))") auto

function rgb_rows ::
  "string \<Rightarrow> int \<Rightarrow> int \<Rightarrow> int \<Rightarrow> string \<Rightarrow> string \<Rightarrow> (string \<times> string) option" where
  "rgb_rows data width height i color alpha =
     (if i < height then do {
        let pos = (1 + 4 * width) * i;
        ft \<leftarrow> index data pos;
        (color', alpha') \<leftarrow> rgb_row data width 0 (pos + 1) (color @ [ft]) (alpha @ [ft]);
        rgb_rows data width height (i + 1) color' alpha'
      } else Some (color, alpha))"
  by pat_completeness auto
termination
  by (relation "measure (\<lambda>(data, width, height, i, color, alpha). nat (height - i))") auto

text \<open>
  The branch \<^verbatim>\<open>if ct >= 4\<close> of \<^verbatim>\<open>parsepngstream\<close>: the concatenated \<^verbatim>\<open>IDAT\<close> data is inflated,
  split, and both streams are compressed again. The result is the error of
  \<^verbatim>\<open>sliceUncompress\<close> (latched in \<^verbatim>\<open>f.err\<close>) or the pair \<^verbatim>\<open>(info.data, info.smask)\<close>.
\<close>

definition separate_alpha ::
  "'r golib \<Rightarrow> int \<Rightarrow> int \<Rightarrow> int \<Rightarrow> string \<Rightarrow> (string + string \<times> string) option" where
  "separate_alpha L ct w h data =
     (case sliceUncompress L data of
        Inl e \<Rightarrow> Some (Inl e)
      | Inr raw \<Rightarrow> do {
          (color, alpha) \<leftarrow> (if ct = 4 then gray_rows raw w h 0 [] []
                               else rgb_rows raw w h 0 [] []);
          Some (Inr (sliceCompress L color, sliceCompress L alpha))
        })"

text \<open>
  The inverse the specification asks for: the rows of the two streams are merged again,
  pixel by pixel, \<open>nc\<close> colour bytes and then the alpha byte. A row of each stream starts
  with the filter-type byte, which must be the same in both, and the streams must hold
  exactly \<open>rows\<close> rows.
\<close>

fun interleave :: "nat \<Rightarrow> string \<Rightarrow> string \<Rightarrow> string" where
  "interleave nc cs [] = []"
| "interleave nc cs (a # as) = take nc cs @ a # interleave nc (drop nc cs) as"

fun merge_rows :: "nat \<Rightarrow> nat \<Rightarrow> nat \<Rightarrow> string \<Rightarrow> string \<Rightarrow> string option" where
  "merge_rows nc width 0 color alpha = (if color = [] \<and> alpha = [] then Some [] else None)"
| "merge_rows nc width (Suc rows) color alpha =
     (case (color, alpha) of
        (fc # crest, fa # arest) \<Rightarrow>
          if fc = fa \<and> nc * width \<le> length crest \<and> width \<le> length arest
          then map_option
                 (\<lambda>rest. fc # interleave nc (take (nc * width) crest) (take width arest) @ rest)
                 (merge_rows nc width rows (drop (nc * width) crest) (drop width arest))
          else None
      | _ \<Rightarrow> None)"

section \<open>Formatting integers\<close>

text \<open>\<^verbatim>\<open>sprintf("%d", i)\<close> and \<^verbatim>\<open>sprintf("%010d", i)\<close>.\<close>

definition digit_char :: "nat \<Rightarrow> char" where
  "digit_char d = char_of (48 + d)"

function digits :: "nat \<Rightarrow> string" where
  "digits m = (if m < 10 then [digit_char m] else digits (m div 10) @ [digit_char (m mod 10)])"
  by pat_completeness auto
termination
  by (relation "measure (\<lambda>m. m)") auto

definition itoa :: "int \<Rightarrow> string" where
  "itoa i = (if i < 0 then CHR ''-'' # digits (nat (- i)) else digits (nat i))"

definition pad10 :: "int \<Rightarrow> string" where
  \<comment> \<open>\<^verbatim>\<open>%010d\<close>: at least ten characters, zeros after the sign\<close>
  "pad10 i =
     (if i < 0 then CHR ''-'' # replicate (9 - length (digits (nat (- i)))) CHR ''0'' @ digits (nat (- i))
      else replicate (10 - length (digits (nat i))) CHR ''0'' @ digits (nat i))"

section \<open>Strings and maps of the Go library\<close>

definition newline :: string where
  "newline = [CHR 0x0A]"

function Replace :: "string \<Rightarrow> string \<Rightarrow> string \<Rightarrow> string" where
  \<comment> \<open>\<^verbatim>\<open>strings.Replace(s, old, new, -1)\<close> for a non-empty \<open>old\<close>\<close>
  "Replace s old new =
     (if s = [] \<or> old = [] then s
      else if take (length old) s = old then new @ Replace (drop (length old) s) old new
      else hd s # Replace (tl s) old new)"
  by pat_completeness auto
termination
  by (relation "measure (\<lambda>(s, old, new). length s)") auto

fun Contains :: "string \<Rightarrow> string \<Rightarrow> bool" where
  \<comment> \<open>\<^verbatim>\<open>strings.Contains(s, substr)\<close>\<close>
  "Contains [] sub = (sub = [])"
| "Contains (c # s) sub = (take (length sub) (c # s) = sub \<or> Contains s sub)"

definition strless :: "string \<Rightarrow> string \<Rightarrow> bool" where
  \<comment> \<open>\<^verbatim>\<open><\<close> on strings: bytewise lexicographic\<close>
  "strless a b = lexordp (\<lambda>c d. (of_char c :: nat) < of_char d) a b"

text \<open>
  A Go map is an association list with one entry per key; \<^verbatim>\<open>range\<close> visits the entries
  in the order of the list (Go leaves the order open, and so does the list).
\<close>

definition lookup :: "('k \<times> 'v) list \<Rightarrow> 'k \<Rightarrow> 'v option" where
  \<comment> \<open>\<^verbatim>\<open>v, ok := m[k]\<close>\<close>
  "lookup m key = map_of m key"

fun assign :: "'k \<Rightarrow> 'v \<Rightarrow> ('k \<times> 'v) list \<Rightarrow> ('k \<times> 'v) list" where
  \<comment> \<open>\<^verbatim>\<open>m[k] = v\<close>\<close>
  "assign key v [] = [(key, v)]"
| "assign key v (p # ps) = (if fst p = key then (key, v) # ps else p # assign key v ps)"

definition store :: "'a list \<Rightarrow> int \<Rightarrow> 'a \<Rightarrow> 'a list option" where
  \<comment> \<open>\<^verbatim>\<open>xs[i] = v\<close> on a slice: panics out of range\<close>
  "store xs i v = (if 0 \<le> i \<and> i < int (length xs) then Some (xs[nat i := v]) else None)"

fun forM :: "'a list \<Rightarrow> ('a \<Rightarrow> 's \<Rightarrow> 's option) \<Rightarrow> 's \<Rightarrow> 's option" where
  \<comment> \<open>a \<^verbatim>\<open>for\<close> loop over the values \<open>xs\<close>, stopped by a panic\<close>
  "forM [] body s = Some s"
| "forM (a # as) body s = do { s' \<leftarrow> body a s; forM as body s' }"

section \<open>The document\<close>

record 'r sizeType =
  wd :: 'r
  ht :: 'r

record fontFileType =
  length1 :: int
  length2 :: int
  n_file :: int  \<comment> \<open>the field \<^verbatim>\<open>n\<close>\<close>

record 'r imageInfoType =
  data_img :: string
  smask_img :: "string option"  \<comment> \<open>\<open>None\<close> is the nil slice\<close>
  i_img :: int  \<comment> \<open>the field \<^verbatim>\<open>i\<close>\<close>
  n_img :: int  \<comment> \<open>the field \<^verbatim>\<open>n\<close>\<close>
  w_img :: 'r  \<comment> \<open>the field \<^verbatim>\<open>w\<close>\<close>
  h_img :: 'r  \<comment> \<open>the field \<^verbatim>\<open>h\<close>\<close>
  cs_img :: string
  pal_img :: string
  bpc_img :: int
  f_img :: string  \<comment> \<open>the field \<^verbatim>\<open>f\<close>\<close>
  dp_img :: string
  trns_img :: "int list"

record 'r linkType =
  x_link :: 'r  \<comment> \<open>the fields \<^verbatim>\<open>x, y, wd, ht\<close>\<close>
  y_link :: 'r
  wd_link :: 'r
  ht_link :: 'r
  link_link :: int  \<comment> \<open>the fields \<^verbatim>\<open>link, linkStr\<close>\<close>
  linkStr_link :: string

record 'r intLinkType =
  page_link :: int  \<comment> \<open>the fields \<^verbatim>\<open>page, y\<close>\<close>
  y_int :: 'r

text \<open>
  Modelled from the spec: the struct \<^verbatim>\<open>Fpdf\<close> is declared outside \<^verbatim>\<open>fpdf.go\<close>; its fields
  are the ones \<^verbatim>\<open>fpdf.go\<close> reads and writes (\<^verbatim>\<open>keywords\<close> is written \<open>keywords'\<close>). The three
  closures \<^verbatim>\<open>headerFnc\<close>, \<^verbatim>\<open>footerFnc\<close> and \<^verbatim>\<open>acceptPageBreak\<close> are in the record \<open>hooks\<close>
  below.
\<close>

record 'r Fpdf =
  page :: int
  n :: int
  offsets :: "int list"
  buffer :: string
  pages :: "string list"
  state :: int
  compress :: bool
  k :: 'r
  defOrientation :: string
  curOrientation :: string
  stdpageSizes :: "(string \<times> 'r sizeType) list"
  defPageSize :: "'r sizeType"
  curPageSize :: "'r sizeType"
  pageSizes :: "(int \<times> 'r sizeType) list"
  wPt :: 'r
  hPt :: 'r
  w :: 'r
  h :: 'r
  lMargin :: 'r
  tMargin :: 'r
  rMargin :: 'r
  bMargin :: 'r
  cMargin :: 'r
  x :: 'r
  y :: 'r
  lasth :: 'r
  lineWidth :: 'r
  fontpath :: string
  coreFonts :: "(string \<times> bool) list"
  fonts :: "(string \<times> fontDefType) list"
  fontFiles :: "(string \<times> fontFileType) list"
  diffs :: "string list"
  fontFamily :: string
  fontStyle :: string
  underline :: bool
  currentFont :: fontDefType
  fontSizePt :: 'r
  fontSize :: 'r
  drawColor :: string
  fillColor :: string
  textColor :: string
  colorFlag :: bool
  ws :: 'r
  images :: "(string \<times> 'r imageInfoType) list"
  pageLinks :: "'r linkType list list"
  links :: "'r intLinkType list"
  inHeader :: bool
  inFooter :: bool
  autoPageBreak :: bool
  pageBreakTrigger :: 'r
  zoomMode :: string
  layoutMode :: string
  title :: string
  subject :: string
  author :: string
  keywords' :: string
  creator :: string
  aliasNbPagesStr :: string
  pdfVersion :: string
  capStyle :: int
  err :: "string option"

text \<open>
  The closures stored in the document. A closure is a function on the document that
  returns (it may panic, and it may latch an error).
\<close>

record 'r hooks =
  headerFnc :: "('r Fpdf \<Rightarrow> 'r Fpdf option) option"
  footerFnc :: "('r Fpdf \<Rightarrow> 'r Fpdf option) option"
  acceptPageBreak :: "'r Fpdf \<Rightarrow> bool"

definition zero_font :: fontDefType where
  \<comment> \<open>the zero value of \<^verbatim>\<open>fontDefType\<close>\<close>
  "zero_font = \<lparr> Tp = [], Name = [],
      Desc = \<lparr> Ascent = 0, Descent = 0, CapHeight = 0, Flags = 0,
               FontBBox = \<lparr> Xmin = 0, Ymin = 0, Xmax = 0, Ymax = 0 \<rparr>,
               ItalicAngle = 0, StemV = 0, MissingWidth = 0 \<rparr>,
      Up = 0, Ut = 0, Cw = replicate 256 0, Diff = [], File = [],
      Size1 = 0, Size2 = 0, OriginalSize = 0, I = 0, N = 0, DiffN = 0 \<rparr>"

subsection \<open>Emitting lines and objects\<close>

definition out :: "string \<Rightarrow> 'r Fpdf \<Rightarrow> 'r Fpdf option" where
  "out s f =
     (if state f = 2 then do {
        p \<leftarrow> index (pages f) (page f);
        Some (f\<lparr>pages := (pages f)[nat (page f) := p @ s @ newline]\<rparr>)
      } else Some (f\<lparr>buffer := buffer f @ s @ newline\<rparr>))"

definition newobj :: "'r Fpdf \<Rightarrow> 'r Fpdf option" where
  "newobj f = do {
     let f = f\<lparr>n := n f + 1\<rparr>;
     let f = f\<lparr>offsets := offsets f @ replicate (nat (n f + 1 - int (length (offsets f)))) 0\<rparr>;
     offs \<leftarrow> store (offsets f) (n f) (int (length (buffer f)));
     out (itoa (n f) @ '' 0 obj'') (f\<lparr>offsets := offs\<rparr>)
   }"

definition putstream :: "string \<Rightarrow> 'r Fpdf \<Rightarrow> 'r Fpdf option" where
  "putstream b f = do {
     f \<leftarrow> out ''stream'' f;
     f \<leftarrow> out b f;
     out ''endstream'' f
   }"

definition escape :: "string \<Rightarrow> string" where
  "escape s =
     (let s = Replace s [CHR 0x5C] [CHR 0x5C, CHR 0x5C];
          s = Replace s ''('' [CHR 0x5C, CHR ''(''];
          s = Replace s '')'' [CHR 0x5C, CHR '')''];
          s = Replace s [CHR 0x0D] [CHR 0x5C, CHR ''r'']
      in s)"

definition textstring :: "string \<Rightarrow> string" where
  "textstring s = ''('' @ escape s @ '')''"

subsection \<open>Creating the document and its settings\<close>

definition SetMargins :: "'r::{zero,plus,minus,uminus,times,inverse,ord} \<Rightarrow> 'r \<Rightarrow> 'r \<Rightarrow> 'r Fpdf \<Rightarrow> 'r Fpdf" where
  "SetMargins left top' right f =
     f\<lparr>lMargin := left, tMargin := top', rMargin := (if right < 0 then left else right)\<rparr>"

definition SetLeftMargin :: "'r::{zero,plus,minus,uminus,times,inverse,ord} \<Rightarrow> 'r Fpdf \<Rightarrow> 'r Fpdf" where
  "SetLeftMargin margin f =
     (let f = f\<lparr>lMargin := margin\<rparr>
      in if page f > 0 \<and> x f < margin then f\<lparr>x := margin\<rparr> else f)"

definition SetTopMargin :: "'r \<Rightarrow> 'r Fpdf \<Rightarrow> 'r Fpdf" where
  "SetTopMargin margin f = f\<lparr>tMargin := margin\<rparr>"

definition SetRightMargin :: "'r \<Rightarrow> 'r Fpdf \<Rightarrow> 'r Fpdf" where
  "SetRightMargin margin f = f\<lparr>rMargin := margin\<rparr>"

definition SetAutoPageBreak :: "bool \<Rightarrow> 'r::{zero,plus,minus,uminus,times,inverse,ord} \<Rightarrow> 'r Fpdf \<Rightarrow> 'r Fpdf" where
  "SetAutoPageBreak auto margin f =
     f\<lparr>autoPageBreak := auto, bMargin := margin, pageBreakTrigger := h f - margin\<rparr>"

definition SetDisplayMode :: "string \<Rightarrow> string \<Rightarrow> 'r Fpdf \<Rightarrow> 'r Fpdf" where
  "SetDisplayMode zoomStr layoutStr f =
     (if err f \<noteq> None then f
      else let layoutStr = (if layoutStr = [] then ''default'' else layoutStr)
        in if zoomStr \<in> set [''fullpage'', ''fullwidth'', ''real'', ''default'']
           then let f = f\<lparr>zoomMode := zoomStr\<rparr>
             in if layoutStr \<in> set [''single'', ''continuous'', ''two'', ''default'']
                then f\<lparr>layoutMode := layoutStr\<rparr>
                else f\<lparr>err := Some (''Incorrect layout display mode: '' @ layoutStr)\<rparr>
           else f\<lparr>err := Some (''Incorrect zoom display mode: '' @ zoomStr)\<rparr>)"

definition SetCompression :: "bool \<Rightarrow> 'r Fpdf \<Rightarrow> 'r Fpdf" where
  "SetCompression c f = f\<lparr>compress := c\<rparr>"

definition SetX :: "'r::{zero,plus,minus,uminus,times,inverse,ord} \<Rightarrow> 'r Fpdf \<Rightarrow> 'r Fpdf" where
  "SetX x' f = (if 0 \<le> x' then f\<lparr>x := x'\<rparr> else f\<lparr>x := w f + x'\<rparr>)"

definition SetY :: "'r::{zero,plus,minus,uminus,times,inverse,ord} \<Rightarrow> 'r Fpdf \<Rightarrow> 'r Fpdf" where
  "SetY y' f =
     (let f = f\<lparr>x := lMargin f\<rparr>
      in if 0 \<le> y' then f\<lparr>y := y'\<rparr> else f\<lparr>y := h f + y'\<rparr>)"

definition SetXY :: "'r::{zero,plus,minus,uminus,times,inverse,ord} \<Rightarrow> 'r \<Rightarrow> 'r Fpdf \<Rightarrow> 'r Fpdf" where
  "SetXY x' y' f = SetX x' (SetY y' f)"

definition Ln :: "'r::{zero,plus,minus,uminus,times,inverse,ord} \<Rightarrow> 'r Fpdf \<Rightarrow> 'r Fpdf" where
  "Ln h' f =
     (let f = f\<lparr>x := lMargin f\<rparr>
      in if h' < 0 then f\<lparr>y := y f + lasth f\<rparr> else f\<lparr>y := y f + h'\<rparr>)"

definition colorString :: "'r::{zero,plus,minus,uminus,times,inverse,ord} golib \<Rightarrow> int \<Rightarrow> int \<Rightarrow> int \<Rightarrow> string \<Rightarrow> string \<Rightarrow> string" where
  \<comment> \<open>with \<^verbatim>\<open>colorValue\<close>: each component is \<^verbatim>\<open>float64(c) / 255.0\<close>\<close>
  "colorString L r g b grayStr fullStr =
     (let cr = flt L (of_int r) / flt L 255;
          cg = flt L (of_int g) / flt L 255;
          cb = flt L (of_int b) / flt L 255
      in if r = g \<and> r = b then fmt3 L cr @ '' '' @ grayStr
         else fmt3 L cr @ '' '' @ fmt3 L cg @ '' '' @ fmt3 L cb @ '' '' @ fullStr)"

definition SetDrawColor :: "'r::{zero,plus,minus,uminus,times,inverse,ord} golib \<Rightarrow> int \<Rightarrow> int \<Rightarrow> int \<Rightarrow> 'r Fpdf \<Rightarrow> 'r Fpdf option" where
  "SetDrawColor L r g b f =
     (let f = f\<lparr>drawColor := colorString L r g b ''G'' ''RG''\<rparr>
      in if page f > 0 then out (drawColor f) f else Some f)"

definition SetFillColor :: "'r::{zero,plus,minus,uminus,times,inverse,ord} golib \<Rightarrow> int \<Rightarrow> int \<Rightarrow> int \<Rightarrow> 'r Fpdf \<Rightarrow> 'r Fpdf option" where
  "SetFillColor L r g b f =
     (let f = f\<lparr>fillColor := colorString L r g b ''g'' ''rg''\<rparr>;
          f = f\<lparr>colorFlag := (fillColor f \<noteq> textColor f)\<rparr>
      in if page f > 0 then out (fillColor f) f else Some f)"

definition SetTextColor :: "'r::{zero,plus,minus,uminus,times,inverse,ord} golib \<Rightarrow> int \<Rightarrow> int \<Rightarrow> int \<Rightarrow> 'r Fpdf \<Rightarrow> 'r Fpdf" where
  "SetTextColor L r g b f =
     (let f = f\<lparr>textColor := colorString L r g b ''g'' ''rg''\<rparr>
      in f\<lparr>colorFlag := (fillColor f \<noteq> textColor f)\<rparr>)"

definition SetLineWidth :: "'r::{zero,plus,minus,uminus,times,inverse,ord} golib \<Rightarrow> 'r \<Rightarrow> 'r Fpdf \<Rightarrow> 'r Fpdf option" where
  "SetLineWidth L width f =
     (let f = f\<lparr>lineWidth := width\<rparr>
      in if page f > 0 then out (fmt2 L (width * k f) @ '' w'') f else Some f)"

definition zero_size :: "'r::{zero,plus,minus,uminus,times,inverse,ord} sizeType" where
  "zero_size = \<lparr> wd = 0, ht = 0 \<rparr>"

definition getpagesizestr ::
  "'r::{zero,plus,minus,uminus,times,inverse,ord} golib \<Rightarrow> string \<Rightarrow> 'r Fpdf \<Rightarrow> 'r Fpdf \<times> 'r sizeType" where
  "getpagesizestr L sizeStr f =
     (if err f \<noteq> None then (f, zero_size)
      else let sizeStr = ToLower L sizeStr
        in if sizeStr = [] then (f, defPageSize f)
           else case lookup (stdpageSizes f) sizeStr of
                  Some size' \<Rightarrow> (f, size'\<lparr>wd := wd size' / k f, ht := ht size' / k f\<rparr>)
                | None \<Rightarrow> (f\<lparr>err := Some (''Unknown page size '' @ sizeStr)\<rparr>, zero_size))"

definition zero_Fpdf :: "'r::{zero,plus,minus,uminus,times,inverse,ord} Fpdf" where
  \<comment> \<open>\<^verbatim>\<open>new(Fpdf)\<close>: every field has its zero value\<close>
  "zero_Fpdf = \<lparr> page = 0, n = 0, offsets = [], buffer = [], pages = [], state = 0,
      compress = False, k = 0, defOrientation = [], curOrientation = [], stdpageSizes = [],
      defPageSize = zero_size, curPageSize = zero_size, pageSizes = [], wPt = 0, hPt = 0,
      w = 0, h = 0, lMargin = 0, tMargin = 0, rMargin = 0, bMargin = 0, cMargin = 0,
      x = 0, y = 0, lasth = 0, lineWidth = 0, fontpath = [], coreFonts = [], fonts = [],
      fontFiles = [], diffs = [], fontFamily = [], fontStyle = [], underline = False,
      currentFont = zero_font, fontSizePt = 0, fontSize = 0, drawColor = [], fillColor = [],
      textColor = [], colorFlag = False, ws = 0, images = [], pageLinks = [], links = [],
      inHeader = False, inFooter = False, autoPageBreak = False, pageBreakTrigger = 0,
      zoomMode = [], layoutMode = [], title = [], subject = [], author = [], keywords' = [],
      creator = [], aliasNbPagesStr = [], pdfVersion = [], capStyle = 0, err = None \<rparr>"

definition New ::
  "'r::{zero,plus,minus,uminus,times,inverse,ord} golib \<Rightarrow> string \<Rightarrow> string \<Rightarrow> string \<Rightarrow> string \<Rightarrow> 'r Fpdf" where
  "New L orientationStr unitStr sizeStr fontDirStr =
     (let orientationStr = (if orientationStr = [] then ''P'' else orientationStr);
          unitStr = (if unitStr = [] then ''mm'' else unitStr);
          sizeStr = (if sizeStr = [] then ''A4'' else sizeStr);
          fontDirStr = (if fontDirStr = [] then ''.'' else fontDirStr);
          f = zero_Fpdf\<lparr> page := 0, n := 2, pages := [[]], pageSizes := [], state := 0,
                fonts := [], fontFiles := [], diffs := [], images := [], pageLinks := [[]],
                links := [\<lparr> page_link = 0, y_int = 0 \<rparr>], inHeader := False,
                inFooter := False, lasth := 0, fontFamily := [], fontStyle := [],
                fontSizePt := flt L 12, underline := False, drawColor := ''0 G'',
                fillColor := ''0 g'', textColor := ''0 g'', colorFlag := False, ws := 0,
                fontpath := fontDirStr,
                coreFonts := [(''courier'', True), (''helvetica'', True), (''times'', True),
                              (''symbol'', True), (''zapfdingbats'', True)] \<rparr>;
          unit = (if unitStr = ''pt'' \<or> unitStr = ''point'' then Some (flt L 1)
                  else if unitStr = ''mm'' then Some (flt L (72 / (254 / 10)))
                  else if unitStr = ''cm'' then Some (flt L (72 / (254 / 100)))
                  else if unitStr = ''in'' \<or> unitStr = ''inch'' then Some (flt L 72)
                  else None)
      in case unit of
           None \<Rightarrow> f\<lparr>err := Some (''Incorrect unit '' @ unitStr)\<rparr>
         | Some k' \<Rightarrow>
             let f = f\<lparr>k := k'\<rparr>;
                 f = f\<lparr>stdpageSizes :=
                        [(''a3'', \<lparr> wd = flt L (84189 / 100), ht = flt L (119055 / 100) \<rparr>),
                         (''a4'', \<lparr> wd = flt L (59528 / 100), ht = flt L (84189 / 100) \<rparr>),
                         (''a5'', \<lparr> wd = flt L (42094 / 100), ht = flt L (59528 / 100) \<rparr>),
                         (''letter'', \<lparr> wd = flt L 612, ht = flt L 792 \<rparr>),
                         (''legal'', \<lparr> wd = flt L 612, ht = flt L 1008 \<rparr>)]\<rparr>;
                 (f, size') = getpagesizestr L sizeStr f;
                 f = f\<lparr>defPageSize := size'\<rparr>
             in if err f \<noteq> None then f
                else
                  let f = f\<lparr>curPageSize := defPageSize f\<rparr>;
                      orientationStr = ToLower L orientationStr;
                      orient =
                        (if orientationStr = ''p'' \<or> orientationStr = ''portrait''
                         then Some (f\<lparr>defOrientation := ''P'', w := wd (defPageSize f),
                                       h := ht (defPageSize f)\<rparr>)
                         else if orientationStr = ''l'' \<or> orientationStr = ''landscape''
                         then Some (f\<lparr>defOrientation := ''L'', w := ht (defPageSize f),
                                       h := wd (defPageSize f)\<rparr>)
                         else None)
                  in (case orient of
                       None \<Rightarrow> f\<lparr>err := Some (''Incorrect orientation: '' @ orientationStr)\<rparr>
                     | Some f \<Rightarrow>
                         let f = f\<lparr>curOrientation := defOrientation f\<rparr>;
                             f = f\<lparr>wPt := w f * k f\<rparr>;
                             f = f\<lparr>hPt := h f * k f\<rparr>;
                             margin = flt L (2835 / 100) / k f;
                             f = SetMargins margin margin margin f;
                             f = f\<lparr>cMargin := margin / flt L 10\<rparr>;
                             f = f\<lparr>lineWidth := flt L (567 / 1000) / k f\<rparr>;
                             f = SetAutoPageBreak True (flt L 2 * margin) f;
                             f = SetDisplayMode ''default'' ''default'' f
                         in if err f \<noteq> None then f
                            else let f = SetCompression True f in f\<lparr>pdfVersion := ''1.3''\<rparr>))"

text \<open>
  The closures of a new document: no header, no footer, and the page-break policy that
  \<^verbatim>\<open>New\<close> installs.
\<close>

definition new_hooks :: "'r hooks" where
  "new_hooks = \<lparr> headerFnc = None, footerFnc = None, acceptPageBreak = autoPageBreak \<rparr>"

subsection \<open>Pages\<close>

definition open' :: "'r Fpdf \<Rightarrow> 'r Fpdf" where
  \<comment> \<open>the method \<^verbatim>\<open>open\<close>\<close>
  "open' f = f\<lparr>state := 1\<rparr>"

definition endpage :: "'r Fpdf \<Rightarrow> 'r Fpdf" where
  "endpage f = f\<lparr>state := 1\<rparr>"

definition beginpage ::
  "'r::{zero,plus,minus,uminus,times,inverse,ord} golib \<Rightarrow> string \<Rightarrow> 'r sizeType \<Rightarrow> 'r Fpdf \<Rightarrow> 'r Fpdf" where
  "beginpage L orientationStr size' f =
     (if err f \<noteq> None then f
      else
        let f = f\<lparr>page := page f + 1\<rparr>;
            f = f\<lparr>pages := pages f @ [[]]\<rparr>;
            f = f\<lparr>pageLinks := pageLinks f @ [[]]\<rparr>;
            f = f\<lparr>state := 2, x := lMargin f, y := tMargin f, fontFamily := []\<rparr>;
            orientationStr = (if orientationStr = [] then defOrientation f
                              else ToUpper L (take 1 orientationStr));
            f = (if orientationStr \<noteq> curOrientation f
                    \<or> \<not> feq L (wd size') (wd (curPageSize f))
                    \<or> \<not> feq L (ht size') (ht (curPageSize f))
                 then
                   let f = (if orientationStr = ''P'' then f\<lparr>w := wd size', h := ht size'\<rparr>
                            else f\<lparr>w := ht size', h := wd size'\<rparr>);
                       f = f\<lparr>wPt := w f * k f\<rparr>;
                       f = f\<lparr>hPt := h f * k f\<rparr>;
                       f = f\<lparr>pageBreakTrigger := h f - bMargin f\<rparr>
                   in f\<lparr>curOrientation := orientationStr, curPageSize := size'\<rparr>
                 else f)
        in if orientationStr \<noteq> defOrientation f
              \<or> \<not> feq L (wd size') (wd (defPageSize f))
              \<or> \<not> feq L (ht size') (ht (defPageSize f))
           then f\<lparr>pageSizes := assign (page f) \<lparr> wd = wPt f, ht = hPt f \<rparr> (pageSizes f)\<rparr>
           else f)"

subsection \<open>Fonts\<close>

definition loadfont :: "'r golib \<Rightarrow> string \<Rightarrow> 'r Fpdf \<Rightarrow> 'r Fpdf \<times> fontDefType" where
  "loadfont L fontStr f =
     (if err f \<noteq> None then (f, zero_font)
      else case ReadFile L fontStr of
             Inl e \<Rightarrow> (f\<lparr>err := Some e\<rparr>, zero_font)
           | Inr buf \<Rightarrow>
               (case Unmarshal L buf of
                  (None, def) \<Rightarrow> (f, def)
                | (Some e, def) \<Rightarrow> (f\<lparr>err := Some e\<rparr>, def)))"

fun search_diffs :: "string list \<Rightarrow> string \<Rightarrow> int \<Rightarrow> int" where
  \<comment> \<open>the loop \<^verbatim>\<open>for j, str := range f.diffs\<close> of \<^verbatim>\<open>AddFont\<close>, from index \<open>j\<close> on\<close>
  "search_diffs [] d j = - 1"
| "search_diffs (str # rest) d j = (if str = d then j else search_diffs rest d (j + 1))"

definition AddFont :: "'r golib \<Rightarrow> string \<Rightarrow> string \<Rightarrow> string \<Rightarrow> 'r Fpdf \<Rightarrow> 'r Fpdf option" where
  "AddFont L familyStr styleStr fileStr f =
     (if err f \<noteq> None then Some f
      else
        let familyStr = ToLower L familyStr;
            fileStr = (if fileStr = [] then Replace familyStr '' '' [] @ ToLower L styleStr @ ''.json''
                       else fileStr);
            fileStr = Join L (fontpath f) fileStr;
            styleStr = ToUpper L styleStr;
            styleStr = (if styleStr = ''IB'' then ''BI'' else styleStr);
            fontkey = familyStr @ styleStr
        in if lookup (fonts f) fontkey \<noteq> None then Some f
           else
             let (f, info) = loadfont L fileStr f
             in if err f \<noteq> None then Some f
                else do {
                  let info = info\<lparr>I := int (length (fonts f)) + 1\<rparr>;
                  (f, info) \<leftarrow>
                    (if length (Diff info) > 0 then do {
                       let n' = search_diffs (diffs f) (Diff info) 0;
                       (f, n') \<leftarrow>
                         (if n' < 0 then do {
                            let n' = int (length (diffs f)) + 1;
                            ds \<leftarrow> store (diffs f) n' (Diff info);
                            Some (f\<lparr>diffs := ds\<rparr>, n')
                          } else Some (f, n'));
                       Some (f, info\<lparr>DiffN := n'\<rparr>)
                     } else Some (f, info));
                  let f = (if length (File info) > 0 then
                             (if Tp info = ''TrueType''
                              then f\<lparr>fontFiles := assign (File info)
                                     \<lparr> length1 = OriginalSize info, length2 = 0, n_file = 0 \<rparr>
                                     (fontFiles f)\<rparr>
                              else f\<lparr>fontFiles := assign (File info)
                                     \<lparr> length1 = Size1 info, length2 = Size2 info, n_file = 0 \<rparr>
                                     (fontFiles f)\<rparr>)
                           else f);
                  Some (f\<lparr>fonts := assign fontkey info (fonts f)\<rparr>)
                })"

definition SetFont ::
  "'r::{zero,plus,minus,uminus,times,inverse,ord} golib \<Rightarrow> string \<Rightarrow> string \<Rightarrow> 'r \<Rightarrow> 'r Fpdf \<Rightarrow> 'r Fpdf option" where
  "SetFont L familyStr styleStr size' f =
     (if err f \<noteq> None then Some f
      else
        let familyStr = (if familyStr = [] then fontFamily f else ToLower L familyStr);
            styleStr = ToUpper L styleStr;
            f = f\<lparr>underline := Contains styleStr ''U''\<rparr>;
            styleStr = (if underline f then Replace styleStr ''U'' [] else styleStr);
            styleStr = (if styleStr = ''IB'' then ''BI'' else styleStr);
            size' = (if feq L size' 0 then fontSizePt f else size')
        in if fontFamily f = familyStr \<and> fontStyle f = styleStr \<and> feq L (fontSizePt f) size'
           then Some f
           else do {
             let fontkey = familyStr @ styleStr;
             (f, familyStr, styleStr, fontkey, ok) \<leftarrow>
               (if lookup (fonts f) fontkey \<noteq> None
                then Some (f, familyStr, styleStr, fontkey, True)
                else
                  let familyStr = (if familyStr = ''arial'' then ''helvetica'' else familyStr)
                  in if lookup (coreFonts f) familyStr \<noteq> None then
                       let styleStr = (if familyStr = ''symbol'' \<or> familyStr = ''zapfdingbats''
                                       then [] else styleStr);
                           fontkey = familyStr @ styleStr
                       in if lookup (fonts f) fontkey = None then do {
                            f \<leftarrow> AddFont L familyStr styleStr [] f;
                            Some (f, familyStr, styleStr, fontkey, err f = None)
                          } else Some (f, familyStr, styleStr, fontkey, True)
                     else Some (f\<lparr>err := Some (''Undefined font: '' @ familyStr @ '' '' @ styleStr)\<rparr>,
                                familyStr, styleStr, fontkey, False));
             if \<not> ok then Some f
             else do {
               let f = f\<lparr>fontFamily := familyStr, fontStyle := styleStr, fontSizePt := size'\<rparr>;
               let f = f\<lparr>fontSize := size' / k f\<rparr>;
               let f = f\<lparr>currentFont := (case lookup (fonts f) fontkey of
                                             Some d \<Rightarrow> d | None \<Rightarrow> zero_font)\<rparr>;
               if page f > 0
               then out (''BT /F'' @ itoa (I (currentFont f)) @ '' '' @ fmt2 L (fontSizePt f) @ '' Tf ET'') f
               else Some f
             }
           })"

definition SetFontSize ::
  "'r::{zero,plus,minus,uminus,times,inverse,ord} golib \<Rightarrow> 'r \<Rightarrow> 'r Fpdf \<Rightarrow> 'r Fpdf option" where
  "SetFontSize L size' f =
     (if feq L (fontSizePt f) size' then Some f
      else
        let f = f\<lparr>fontSizePt := size'\<rparr>;
            f = f\<lparr>fontSize := size' / k f\<rparr>
        in if page f > 0
           then out (''BT /F'' @ itoa (I (currentFont f)) @ '' '' @ fmt2 L (fontSizePt f) @ '' Tf ET'') f
           else Some f)"

subsection \<open>Adding a page\<close>

definition run_hook :: "('r Fpdf \<Rightarrow> 'r Fpdf option) option \<Rightarrow> 'r Fpdf \<Rightarrow> 'r Fpdf option" where
  \<comment> \<open>\<^verbatim>\<open>if fnc != nil { fnc() }\<close>\<close>
  "run_hook fnc f = (case fnc of None \<Rightarrow> Some f | Some g \<Rightarrow> g f)"

definition AddPageFormat ::
  "'r::{zero,plus,minus,uminus,times,inverse,ord} golib \<Rightarrow> 'r hooks \<Rightarrow> string \<Rightarrow> 'r sizeType
     \<Rightarrow> 'r Fpdf \<Rightarrow> 'r Fpdf option" where
  "AddPageFormat L H orientationStr size' f =
     (if err f \<noteq> None then Some f
      else do {
        let f = (if state f = 0 then open' f else f);
        let familyStr = fontFamily f;
        let style = fontStyle f @ (if underline f then ''U'' else []);
        let fontsize = fontSizePt f;
        let lw = lineWidth f;
        let dc = drawColor f;
        let fc = fillColor f;
        let tc = textColor f;
        let cf = colorFlag f;
        f \<leftarrow> (if page f > 0 then do {
                f \<leftarrow> (if footerFnc H \<noteq> None then do {
                        f \<leftarrow> run_hook (footerFnc H) (f\<lparr>inFooter := True\<rparr>);
                        Some (f\<lparr>inFooter := False\<rparr>)
                      } else Some f);
                Some (endpage f)
              } else Some f);
        let f = beginpage L orientationStr size' f;
        f \<leftarrow> out (itoa (capStyle f) @ '' J'') f;
        let f = f\<lparr>lineWidth := lw\<rparr>;
        f \<leftarrow> out (fmt2 L (lw * k f) @ '' w'') f;
        f \<leftarrow> (if familyStr \<noteq> [] then SetFont L familyStr style fontsize f else Some f);
        if familyStr \<noteq> [] \<and> err f \<noteq> None then Some f
        else do {
          let f = f\<lparr>drawColor := dc\<rparr>;
          f \<leftarrow> (if dc \<noteq> ''0 G'' then out dc f else Some f);
          let f = f\<lparr>fillColor := fc\<rparr>;
          f \<leftarrow> (if fc \<noteq> ''0 g'' then out fc f else Some f);
          let f = f\<lparr>textColor := tc, colorFlag := cf\<rparr>;
          f \<leftarrow> (if headerFnc H \<noteq> None then do {
                  f \<leftarrow> run_hook (headerFnc H) (f\<lparr>inHeader := True\<rparr>);
                  Some (f\<lparr>inHeader := False\<rparr>)
                } else Some f);
          f \<leftarrow> (if \<not> feq L (lineWidth f) lw
                then out (fmt2 L (lw * k f) @ '' w'') (f\<lparr>lineWidth := lw\<rparr>)
                else Some f);
          f \<leftarrow> (if familyStr \<noteq> [] then SetFont L familyStr style fontsize f else Some f);
          if familyStr \<noteq> [] \<and> err f \<noteq> None then Some f
          else do {
            f \<leftarrow> (if drawColor f \<noteq> dc then out dc (f\<lparr>drawColor := dc\<rparr>) else Some f);
            f \<leftarrow> (if fillColor f \<noteq> fc then out fc (f\<lparr>fillColor := fc\<rparr>) else Some f);
            Some (f\<lparr>textColor := tc, colorFlag := cf\<rparr>)
          }
        }
      })"

definition AddPage ::
  "'r::{zero,plus,minus,uminus,times,inverse,ord} golib \<Rightarrow> 'r hooks \<Rightarrow> 'r Fpdf \<Rightarrow> 'r Fpdf option" where
  "AddPage L H f =
     (if err f \<noteq> None then Some f
      else AddPageFormat L H (defOrientation f) (defPageSize f) f)"

subsection \<open>Links\<close>

definition AddLink :: "'r::zero Fpdf \<Rightarrow> 'r Fpdf \<times> int" where
  "AddLink f =
     (let f = f\<lparr>links := links f @ [\<lparr> page_link = 0, y_int = 0 \<rparr>]\<rparr>
      in (f, int (length (links f)) - 1))"

definition SetLink ::
  "'r::{zero,plus,minus,uminus,times,inverse,ord} golib \<Rightarrow> int \<Rightarrow> 'r \<Rightarrow> int \<Rightarrow> 'r Fpdf \<Rightarrow> 'r Fpdf option" where
  "SetLink L link y' page' f = do {
     let y' = (if feq L y' (flt L (- 1)) then y f else y');
     let page' = (if page' = - 1 then page f else page');
     ls \<leftarrow> store (links f) link \<lparr> page_link = page', y_int = y' \<rparr>;
     Some (f\<lparr>links := ls\<rparr>)
   }"

definition newLink ::
  "'r::{zero,plus,minus,uminus,times,inverse,ord} \<Rightarrow> 'r \<Rightarrow> 'r \<Rightarrow> 'r \<Rightarrow> int \<Rightarrow> string \<Rightarrow> 'r Fpdf \<Rightarrow> 'r Fpdf option" where
  "newLink x' y' w' h' link linkStr f = do {
     pl \<leftarrow> index (pageLinks f) (page f);
     pls \<leftarrow> store (pageLinks f) (page f)
             (pl @ [\<lparr> x_link = x' * k f, y_link = hPt f - y' * k f, wd_link = w' * k f,
                      ht_link = h' * k f, link_link = link, linkStr_link = linkStr \<rparr>]);
     Some (f\<lparr>pageLinks := pls\<rparr>)
   }"

definition Link ::
  "'r::{zero,plus,minus,uminus,times,inverse,ord} \<Rightarrow> 'r \<Rightarrow> 'r \<Rightarrow> 'r \<Rightarrow> int \<Rightarrow> 'r Fpdf \<Rightarrow> 'r Fpdf option" where
  "Link x' y' w' h' link f = newLink x' y' w' h' link [] f"

definition LinkString ::
  "'r::{zero,plus,minus,uminus,times,inverse,ord} \<Rightarrow> 'r \<Rightarrow> 'r \<Rightarrow> 'r \<Rightarrow> string \<Rightarrow> 'r Fpdf \<Rightarrow> 'r Fpdf option" where
  "LinkString x' y' w' h' linkStr f = newLink x' y' w' h' 0 linkStr f"

subsection \<open>Cells\<close>

fun sum_widths :: "int list \<Rightarrow> int list \<Rightarrow> int \<Rightarrow> int option" where
  \<comment> \<open>the loop \<^verbatim>\<open>for _, ch := range s { w += f.currentFont.Cw[ch] }\<close>\<close>
  "sum_widths cw [] acc = Some acc"
| "sum_widths cw (ch # rest) acc = do { c \<leftarrow> index cw ch; sum_widths cw rest (acc + c) }"

definition GetStringWidth ::
  "'r::{zero,plus,minus,uminus,times,inverse,ord} golib \<Rightarrow> string \<Rightarrow> 'r Fpdf \<Rightarrow> 'r option" where
  "GetStringWidth L s f = do {
     total \<leftarrow> sum_widths (Cw (currentFont f)) (runes L s) 0;
     Some (flt L (of_int total) * fontSize f / flt L 1000)
   }"

fun blankCount :: "string \<Rightarrow> int" where
  "blankCount [] = 0"
| "blankCount (c # str) = (if c = CHR '' '' then 1 else 0) + blankCount str"

definition dounderline ::
  "'r::{zero,plus,minus,uminus,times,inverse,ord} golib \<Rightarrow> 'r \<Rightarrow> 'r \<Rightarrow> string \<Rightarrow> 'r Fpdf \<Rightarrow> string option" where
  "dounderline L x' y' txt f = do {
     let up = flt L (of_int (Up (currentFont f)));
     let ut = flt L (of_int (Ut (currentFont f)));
     sw \<leftarrow> GetStringWidth L txt f;
     let w' = sw + ws f * flt L (of_int (blankCount txt));
     Some (fmt2 L (x' * k f) @ '' ''
           @ fmt2 L ((h f - (y' - up / flt L 1000 * fontSize f)) * k f) @ '' ''
           @ fmt2 L (w' * k f) @ '' ''
           @ fmt2 L (- ut / flt L 1000 * fontSizePt f) @ '' re f'')
   }"

definition border_line :: "'r golib \<Rightarrow> 'r \<Rightarrow> 'r \<Rightarrow> 'r \<Rightarrow> 'r \<Rightarrow> string" where
  \<comment> \<open>\<^verbatim>\<open>sprintf("%.2f %.2f m %.2f %.2f l S ", a, b, c, d)\<close>\<close>
  "border_line L a b c d =
     fmt2 L a @ '' '' @ fmt2 L b @ '' m '' @ fmt2 L c @ '' '' @ fmt2 L d @ '' l S ''"

definition CellFormat ::
  "'r::{zero,plus,minus,uminus,times,inverse,ord} golib \<Rightarrow> 'r hooks \<Rightarrow> 'r \<Rightarrow> 'r \<Rightarrow> string \<Rightarrow> string
     \<Rightarrow> int \<Rightarrow> string \<Rightarrow> bool \<Rightarrow> int \<Rightarrow> string \<Rightarrow> 'r Fpdf \<Rightarrow> 'r Fpdf option" where
  "CellFormat L H w' h' txtStr borderStr ln' alignStr fill link linkStr f =
     (if err f \<noteq> None then Some f
      else do {
        let borderStr = ToUpper L borderStr;
        let k' = k f;
        (f, returned) \<leftarrow>
          (if y f + h' > pageBreakTrigger f \<and> \<not> inHeader f \<and> \<not> inFooter f \<and> acceptPageBreak H f
           then do {
             let x0 = x f;
             let ws0 = ws f;
             f \<leftarrow> (if ws0 > 0 then out ''0 Tw'' (f\<lparr>ws := 0\<rparr>) else Some f);
             f \<leftarrow> AddPageFormat L H (curOrientation f) (curPageSize f) f;
             if err f \<noteq> None then Some (f, True)
             else do {
               let f = f\<lparr>x := x0\<rparr>;
               f \<leftarrow> (if ws0 > 0 then out (fmt3 L (ws0 * k') @ '' Tw'') (f\<lparr>ws := ws0\<rparr>)
                     else Some f);
               Some (f, False)
             }
           } else Some (f, False));
        if returned then Some f
        else do {
          let w' = (if feq L w' 0 then w f - rMargin f - x f else w');
          let s = (if fill \<or> borderStr = ''1'' then
                     (let op = (if fill then (if borderStr = ''1'' then ''B'' else ''f'') else ''S'')
                      in fmt2 L (x f * k') @ '' '' @ fmt2 L ((h f - y f) * k') @ '' ''
                         @ fmt2 L (w' * k') @ '' '' @ fmt2 L (- h' * k') @ '' re '' @ op @ '' '')
                   else []);
          let s = s @
            (if length borderStr > 0 \<and> borderStr \<noteq> ''1'' then
               (let x0 = x f;
                    y0 = y f;
                    left = x0 * k';
                    top' = (h f - y0) * k';
                    right = (x0 + w') * k';
                    bottom = (h f - (y0 + h')) * k'
                in (if Contains borderStr ''L'' then border_line L left top' left bottom else [])
                   @ (if Contains borderStr ''T'' then border_line L left top' right top' else [])
                   @ (if Contains borderStr ''R'' then border_line L right top' right bottom else [])
                   @ (if Contains borderStr ''B'' then border_line L left bottom right bottom else []))
             else []);
          (s, f) \<leftarrow>
            (if length txtStr > 0 then do {
               dx \<leftarrow> (if alignStr = ''R'' then do {
                         sw \<leftarrow> GetStringWidth L txtStr f;
                         Some (w' - cMargin f - sw)
                       } else if alignStr = ''C'' then do {
                         sw \<leftarrow> GetStringWidth L txtStr f;
                         Some ((w' - sw) / flt L 2)
                       } else Some (cMargin f));
               let s = s @ (if colorFlag f then ''q '' @ textColor f @ '' '' else []);
               let txt2 = Replace txtStr [CHR 0x5C] [CHR 0x5C, CHR 0x5C];
               let txt2 = Replace txt2 ''('' [CHR 0x5C, CHR ''(''];
               let txt2 = Replace txt2 '')'' [CHR 0x5C, CHR '')''];
               let s = s @ ''BT '' @ fmt2 L ((x f + dx) * k') @ '' ''
                         @ fmt2 L ((h f - (y f + flt L (1 / 2) * h' + flt L (3 / 10) * fontSize f)) * k')
                         @ '' Td ('' @ txt2 @ '') Tj ET'';
               s \<leftarrow> (if underline f then do {
                        u \<leftarrow> dounderline L (x f + dx)
                               (y f + flt L (1 / 2) * h' + flt L (3 / 10) * fontSize f) txtStr f;
                        Some (s @ '' '' @ u)
                      } else Some s);
               let s = s @ (if colorFlag f then '' Q'' else []);
               f \<leftarrow> (if link > 0 \<or> length linkStr > 0 then do {
                        sw \<leftarrow> GetStringWidth L txtStr f;
                        newLink (x f + dx) (y f + flt L (1 / 2) * h' - flt L (1 / 2) * fontSize f)
                          sw (fontSize f) link linkStr f
                      } else Some f);
               Some (s, f)
             } else Some (s, f));
          f \<leftarrow> (if length s > 0 then out s f else Some f);
          let f = f\<lparr>lasth := h'\<rparr>;
          Some (if ln' > 0 then
                  (let f = f\<lparr>y := y f + h'\<rparr> in if ln' = 1 then f\<lparr>x := lMargin f\<rparr> else f)
                else f\<lparr>x := x f + w'\<rparr>)
        }
      })"

definition Cell ::
  "'r::{zero,plus,minus,uminus,times,inverse,ord} golib \<Rightarrow> 'r hooks \<Rightarrow> 'r \<Rightarrow> 'r \<Rightarrow> string
     \<Rightarrow> 'r Fpdf \<Rightarrow> 'r Fpdf option" where
  "Cell L H w' h' txtStr f = CellFormat L H w' h' txtStr [] 0 ''L'' False 0 [] f"

subsection \<open>Multi-line layout\<close>

text \<open>
  One iteration of the scan loop of \<^verbatim>\<open>MultiCell\<close>, on the loop variables
  \<open>(sep, i, j, l, ls, ns, nl, b)\<close> and the document. \<open>cw[c]\<close> reads the width table of the
  current font through the pointer \<^verbatim>\<open>cw := &f.currentFont.Cw\<close>, that is the table of the
  font that is current at the time of the read.
\<close>

definition flush_ws ::
  "'r::{zero,plus,minus,uminus,times,inverse,ord} Fpdf \<Rightarrow> 'r Fpdf option" where
  \<comment> \<open>\<^verbatim>\<open>if f.ws > 0 { f.ws = 0; f.out("0 Tw") }\<close>\<close>
  "flush_ws f = (if ws f > 0 then out ''0 Tw'' (f\<lparr>ws := 0\<rparr>) else Some f)"

definition mc_step ::
  "'r::{zero,plus,minus,uminus,times,inverse,ord} golib \<Rightarrow> 'r hooks \<Rightarrow> 'r \<Rightarrow> 'r \<Rightarrow> string \<Rightarrow> bool
     \<Rightarrow> string \<Rightarrow> string \<Rightarrow> 'r \<Rightarrow> string
     \<Rightarrow> int \<times> int \<times> int \<times> 'r \<times> 'r \<times> int \<times> int \<times> string \<Rightarrow> 'r Fpdf
     \<Rightarrow> ((int \<times> int \<times> int \<times> 'r \<times> 'r \<times> int \<times> int \<times> string) \<times> 'r Fpdf) option" where
  "mc_step L H w' h' alignStr fill borderStr b2 wmax s vars f =
     (case vars of (sep, i, j, l, ls, ns, nl, b) \<Rightarrow> do {
        c \<leftarrow> index s i;
        if c = CHR 0x0A then do {
          f \<leftarrow> flush_ws f;
          line \<leftarrow> slice s j i;
          f \<leftarrow> CellFormat L H w' h' line b 2 alignStr fill 0 [] f;
          let i = i + 1;
          let nl = nl + 1;
          Some ((- 1, i, i, 0, ls, 0, nl, if length borderStr > 0 \<and> nl = 2 then b2 else b), f)
        } else do {
          let (sep, ls, ns) = (if c = CHR '' '' then (i, l, ns + 1) else (sep, ls, ns));
          cwc \<leftarrow> index (Cw (currentFont f)) (int (of_char c));
          let l = l + flt L (of_int cwc);
          if l > wmax then do {
            (i, f) \<leftarrow>
              (if sep = - 1 then do {
                 let i = (if i = j then i + 1 else i);
                 f \<leftarrow> flush_ws f;
                 line \<leftarrow> slice s j i;
                 f \<leftarrow> CellFormat L H w' h' line b 2 alignStr fill 0 [] f;
                 Some (i, f)
               } else do {
                 f \<leftarrow> (if alignStr = ''J'' then do {
                          let f = f\<lparr>ws := (if ns > 1
                                             then (wmax - ls) / flt L 1000 * fontSize f
                                                    / flt L (of_int (ns - 1))
                                             else 0)\<rparr>;
                          out (fmt3 L (ws f * k f) @ '' Tw'') f
                        } else Some f);
                 line \<leftarrow> slice s j sep;
                 f \<leftarrow> CellFormat L H w' h' line b 2 alignStr fill 0 [] f;
                 Some (sep + 1, f)
               });
            let nl = nl + 1;
            Some ((- 1, i, i, 0, ls, 0, nl, if length borderStr > 0 \<and> nl = 2 then b2 else b), f)
          } else Some ((sep, i + 1, j, l, ls, ns, nl, b), f)
        }
      })"

text \<open>
  The loop \<^verbatim>\<open>for i < nb\<close>. The result \<open>None\<close> means that the loop does not return;
  \<open>Some None\<close> is a panic in an iteration.
\<close>

partial_function (option) mc_loop ::
  "'r::{zero,plus,minus,uminus,times,inverse,ord} golib \<Rightarrow> 'r hooks \<Rightarrow> 'r \<Rightarrow> 'r \<Rightarrow> string \<Rightarrow> bool
     \<Rightarrow> string \<Rightarrow> string \<Rightarrow> 'r \<Rightarrow> string \<Rightarrow> int
     \<Rightarrow> int \<times> int \<times> int \<times> 'r \<times> 'r \<times> int \<times> int \<times> string \<Rightarrow> 'r Fpdf
     \<Rightarrow> ((int \<times> int \<times> int \<times> 'r \<times> 'r \<times> int \<times> int \<times> string) \<times> 'r Fpdf) option option" where
  "mc_loop L H w' h' alignStr fill borderStr b2 wmax s nb vars f =
     (if fst (snd vars) < nb then
        (case mc_step L H w' h' alignStr fill borderStr b2 wmax s vars f of
           None \<Rightarrow> Some None
         | Some (vars', f') \<Rightarrow> mc_loop L H w' h' alignStr fill borderStr b2 wmax s nb vars' f')
      else Some (Some (vars, f)))"

definition MultiCell ::
  "'r::{zero,plus,minus,uminus,times,inverse,ord} golib \<Rightarrow> 'r hooks \<Rightarrow> 'r \<Rightarrow> 'r \<Rightarrow> string \<Rightarrow> string
     \<Rightarrow> string \<Rightarrow> bool \<Rightarrow> 'r Fpdf \<Rightarrow> 'r Fpdf option option" where
  "MultiCell L H w' h' txtStr borderStr alignStr fill f =
     (let alignStr = (if alignStr = [] then ''J'' else alignStr);
          w' = (if feq L w' 0 then w f - rMargin f - x f else w');
          wmax = (w' - flt L 2 * cMargin f) * flt L 1000 / fontSize f;
          s = Replace txtStr [CHR 0x0D] [];
          nb = int (length s);
          nb = (if nb > 0 \<and> index s (nb - 1) = Some (CHR 0x0A) then nb - 1 else nb);
          s = take (nat nb) s;
          (borderStr, b, b2) =
            (if length borderStr > 0 then
               (if borderStr = ''1'' then (''LTRB'', ''LRT'', ''LR'')
                else
                  let b2 = (if Contains borderStr ''L'' then ''L'' else [])
                           @ (if Contains borderStr ''R'' then ''R'' else [])
                  in (borderStr, if Contains borderStr ''T'' then b2 @ ''T'' else b2, b2))
             else (borderStr, ''0'', []))
      in case mc_loop L H w' h' alignStr fill borderStr b2 wmax s nb (- 1, 0, 0, 0, 0, 0, 1, b) f of
           None \<Rightarrow> None
         | Some None \<Rightarrow> Some None
         | Some (Some ((sep, i, j, l, ls, ns, nl, b), f)) \<Rightarrow>
             Some (do {
               f \<leftarrow> flush_ws f;
               let b = (if length borderStr > 0 \<and> Contains borderStr ''B'' then b @ ''B'' else b);
               line \<leftarrow> slice s j i;
               f \<leftarrow> CellFormat L H w' h' line b 2 alignStr fill 0 [] f;
               Some (f\<lparr>x := lMargin f\<rparr>)
             }))"

subsection \<open>Serialising the pages\<close>

fun concatM :: "'a list \<Rightarrow> ('a \<Rightarrow> string option) \<Rightarrow> string option" where
  \<comment> \<open>a loop that appends one piece per value to a local buffer\<close>
  "concatM [] piece = Some []"
| "concatM (a # as) piece = do { p \<leftarrow> piece a; ps \<leftarrow> concatM as piece; Some (p @ ps) }"

definition link_annot ::
  "'r::{zero,plus,minus,uminus,times,inverse,ord} golib \<Rightarrow> 'r \<Rightarrow> 'r Fpdf \<Rightarrow> 'r linkType \<Rightarrow> string option" where
  \<comment> \<open>the body of the loop \<^verbatim>\<open>for _, pl := range f.pageLinks[n]\<close> of \<^verbatim>\<open>putpages\<close>\<close>
  "link_annot L hPt' f pl = do {
     let rect = ''<</Type /Annot /Subtype /Link /Rect ['' @ fmt2 L (x_link pl) @ '' ''
                @ fmt2 L (y_link pl) @ '' '' @ fmt2 L (x_link pl + wd_link pl) @ '' ''
                @ fmt2 L (y_link pl - ht_link pl) @ ''] /Border [0 0 0] '';
     if link_link pl = 0
     then Some (rect @ ''/A <</S /URI /URI '' @ textstring (linkStr_link pl) @ ''>>>>'')
     else do {
       l \<leftarrow> index (links f) (link_link pl);
       let h' = (case lookup (pageSizes f) (page_link l) of Some sz \<Rightarrow> ht sz | None \<Rightarrow> hPt');
       Some (rect @ ''/Dest ['' @ itoa (1 + 2 * page_link l) @ '' 0 R /XYZ 0 ''
             @ fmt2 L (h' - y_int l * k f) @ '' null]>>'')
     }
   }"

definition put_page ::
  "'r::{zero,plus,minus,uminus,times,inverse,ord} golib \<Rightarrow> 'r \<Rightarrow> int \<Rightarrow> 'r Fpdf \<Rightarrow> 'r Fpdf option" where
  \<comment> \<open>the body of the loop \<^verbatim>\<open>for n := 1; n <= nb; n++\<close> of \<^verbatim>\<open>putpages\<close>\<close>
  "put_page L hPt' n' f = do {
     f \<leftarrow> newobj f;
     f \<leftarrow> out ''<</Type /Page'' f;
     f \<leftarrow> out ''/Parent 1 0 R'' f;
     f \<leftarrow> (case lookup (pageSizes f) n' of
             Some pageSize \<Rightarrow>
               out (''/MediaBox [0 0 '' @ fmt2 L (wd pageSize) @ '' '' @ fmt2 L (ht pageSize) @ '']'') f
           | None \<Rightarrow> Some f);
     f \<leftarrow> out ''/Resources 2 0 R'' f;
     pls \<leftarrow> index (pageLinks f) n';
     f \<leftarrow> (if length pls > 0 then do {
             annots \<leftarrow> concatM pls (link_annot L hPt' f);
             out (''/Annots ['' @ annots @ '']'') f
           } else Some f);
     f \<leftarrow> (if strless ''1.3'' (pdfVersion f)
           then out ''/Group <</Type /Group /S /Transparency /CS /DeviceRGB>>'' f
           else Some f);
     f \<leftarrow> out (''/Contents '' @ itoa (n f + 1) @ '' 0 R>>'') f;
     f \<leftarrow> out ''endobj'' f;
     f \<leftarrow> newobj f;
     p \<leftarrow> index (pages f) n';
     f \<leftarrow> (if compress f then do {
             let data = sliceCompress L p;
             f \<leftarrow> out (''<</Filter /FlateDecode /Length '' @ itoa (int (length data)) @ ''>>'') f;
             putstream data f
           } else do {
             f \<leftarrow> out (''<</Length '' @ itoa (int (length p)) @ ''>>'') f;
             putstream p f
           });
     out ''endobj'' f
   }"

definition replace_alias :: "string \<Rightarrow> int \<Rightarrow> 'r Fpdf \<Rightarrow> 'r Fpdf option" where
  \<comment> \<open>the body of the loop of \<^verbatim>\<open>putpages\<close> that replaces the alias of the number of pages\<close>
  "replace_alias nbStr n' f = do {
     s \<leftarrow> index (pages f) n';
     if Contains s (aliasNbPagesStr f) then do {
       ps \<leftarrow> store (pages f) n' (Replace s (aliasNbPagesStr f) nbStr);
       Some (f\<lparr>pages := ps\<rparr>)
     } else Some f
   }"

definition kids :: "int \<Rightarrow> string" where
  \<comment> \<open>the buffer \<^verbatim>\<open>kids\<close> of \<^verbatim>\<open>putpages\<close>\<close>
  "kids nb = ''/Kids ['' @ concat (map (\<lambda>i. itoa (3 + 2 * i) @ '' 0 R '') [0..nb - 1]) @ '']''"

definition putpages ::
  "'r::{zero,plus,minus,uminus,times,inverse,ord} golib \<Rightarrow> 'r Fpdf \<Rightarrow> 'r Fpdf option" where
  "putpages L f = do {
     let nb = page f;
     f \<leftarrow> (if length (aliasNbPagesStr f) > 0 then forM [1..nb] (replace_alias (itoa nb)) f
           else Some f);
     let (wPt', hPt') = (if defOrientation f = ''P''
                         then (wd (defPageSize f) * k f, ht (defPageSize f) * k f)
                         else (ht (defPageSize f) * k f, wd (defPageSize f) * k f));
     f \<leftarrow> forM [1..nb] (put_page L hPt') f;
     offs \<leftarrow> store (offsets f) 1 (int (length (buffer f)));
     let f = f\<lparr>offsets := offs\<rparr>;
     f \<leftarrow> out ''1 0 obj'' f;
     f \<leftarrow> out ''<</Type /Pages'' f;
     f \<leftarrow> out (kids nb) f;
     f \<leftarrow> out (''/Count '' @ itoa nb) f;
     f \<leftarrow> out (''/MediaBox [0 0 '' @ fmt2 L wPt' @ '' '' @ fmt2 L hPt' @ '']'') f;
     f \<leftarrow> out ''>>'' f;
     out ''endobj'' f
   }"

subsection \<open>Serialising the resources\<close>

definition put_diff :: "string \<Rightarrow> 'r Fpdf \<Rightarrow> 'r Fpdf option" where
  "put_diff diff f = do {
     f \<leftarrow> newobj f;
     f \<leftarrow> out (''<</Type /Encoding /BaseEncoding /WinAnsiEncoding /Differences ['' @ diff @ '']>>'') f;
     out ''endobj'' f
   }"

text \<open>
  The loops of \<^verbatim>\<open>putfonts\<close> over the font files and over the fonts can return from
  \<^verbatim>\<open>putfonts\<close>; the flag of the result says so.
\<close>

definition put_fontfile ::
  "'r golib \<Rightarrow> string \<times> fontFileType \<Rightarrow> 'r Fpdf \<Rightarrow> ('r Fpdf \<times> bool) option" where
  "put_fontfile L entry f =
     (case entry of (file, info) \<Rightarrow> do {
        f \<leftarrow> newobj f;
        let info = info\<lparr>n_file := n f\<rparr>;
        let f = f\<lparr>fontFiles := assign file info (fontFiles f)\<rparr>;
        case ReadFile L (Join L (fontpath f) file) of
          Inl e \<Rightarrow> Some (f\<lparr>err := Some e\<rparr>, True)
        | Inr font \<Rightarrow> do {
            suffix \<leftarrow> slice file (int (length file) - 2) (int (length file));
            let compressed = (suffix = ''.z'');
            font \<leftarrow> (if \<not> compressed \<and> length2 info > 0 then do {
                       buf \<leftarrow> slice font 6 (length1 info);
                       rest \<leftarrow> slice font (6 + length1 info + 6) (length2 info);
                       Some (buf @ rest)
                     } else Some font);
            f \<leftarrow> out (''<</Length '' @ itoa (int (length font))) f;
            f \<leftarrow> (if compressed then out ''/Filter /FlateDecode'' f else Some f);
            f \<leftarrow> out (''/Length1 '' @ itoa (length1 info)) f;
            f \<leftarrow> (if length2 info > 0
                  then out (''/Length2 '' @ itoa (length2 info) @ '' /Length3 0'') f
                  else Some f);
            f \<leftarrow> out ''>>'' f;
            f \<leftarrow> putstream font f;
            f \<leftarrow> out ''endobj'' f;
            Some (f, False)
          }
      })"

definition put_font ::
  "'r golib \<Rightarrow> int \<Rightarrow> string \<times> fontDefType \<Rightarrow> 'r Fpdf \<Rightarrow> ('r Fpdf \<times> bool) option" where
  "put_font L nf entry f =
     (case entry of (key, font) \<Rightarrow> do {
        let font = font\<lparr>N := n f + 1\<rparr>;
        let f = f\<lparr>fonts := assign key font (fonts f)\<rparr>;
        let tp = Tp font;
        let name = Name font;
        if tp = ''Core'' then do {
          f \<leftarrow> newobj f;
          f \<leftarrow> out ''<</Type /Font'' f;
          f \<leftarrow> out (''/BaseFont /'' @ name) f;
          f \<leftarrow> out ''/Subtype /Type1'' f;
          f \<leftarrow> (if name \<noteq> ''Symbol'' \<and> name \<noteq> ''ZapfDingbats''
                then out ''/Encoding /WinAnsiEncoding'' f else Some f);
          f \<leftarrow> out ''>>'' f;
          f \<leftarrow> out ''endobj'' f;
          Some (f, False)
        } else if tp = ''Type1'' \<or> tp = ''TrueType'' then do {
          f \<leftarrow> newobj f;
          f \<leftarrow> out ''<</Type /Font'' f;
          f \<leftarrow> out (''/BaseFont /'' @ name) f;
          f \<leftarrow> out (''/Subtype /'' @ tp) f;
          f \<leftarrow> out ''/FirstChar 32 /LastChar 255'' f;
          f \<leftarrow> out (''/Widths '' @ itoa (n f + 1) @ '' 0 R'') f;
          f \<leftarrow> out (''/FontDescriptor '' @ itoa (n f + 2) @ '' 0 R'') f;
          f \<leftarrow> (if DiffN font > 0 then out (''/Encoding '' @ itoa (nf + DiffN font) @ '' 0 R'') f
                else out ''/Encoding /WinAnsiEncoding'' f);
          f \<leftarrow> out ''>>'' f;
          f \<leftarrow> out ''endobj'' f;
          f \<leftarrow> newobj f;
          widths \<leftarrow> concatM [32..255]
                      (\<lambda>j. do { c \<leftarrow> index (Cw font) j; Some (itoa c @ '' '') });
          f \<leftarrow> out (''['' @ widths @ '']'') f;
          f \<leftarrow> out ''endobj'' f;
          f \<leftarrow> newobj f;
          let d = Desc font;
          let s = ''<</Type /FontDescriptor /FontName /'' @ name @ '' ''
                  @ ''/Ascent '' @ itoa (Ascent d) @ '' ''
                  @ ''/Descent '' @ itoa (Descent d) @ '' ''
                  @ ''/CapHeight '' @ itoa (CapHeight d) @ '' ''
                  @ ''/Flags '' @ itoa (Flags d) @ '' ''
                  @ ''/FontBBox ['' @ itoa (Xmin (FontBBox d)) @ '' '' @ itoa (Ymin (FontBBox d))
                  @ '' '' @ itoa (Xmax (FontBBox d)) @ '' '' @ itoa (Ymax (FontBBox d)) @ ''] ''
                  @ ''/ItalicAngle '' @ itoa (ItalicAngle d) @ '' ''
                  @ ''/StemV '' @ itoa (StemV d) @ '' ''
                  @ ''/MissingWidth '' @ itoa (MissingWidth d) @ '' '';
          let suffix = (if tp \<noteq> ''Type1'' then ''2'' else []);
          let fn = (case lookup (fontFiles f) (File font) of Some ff \<Rightarrow> n_file ff | None \<Rightarrow> 0);
          f \<leftarrow> out (s @ ''/FontFile'' @ suffix @ '' '' @ itoa fn @ '' 0 R>>'') f;
          f \<leftarrow> out ''endobj'' f;
          Some (f, False)
        } else Some (f\<lparr>err := Some (''Unsupported font type: '' @ tp)\<rparr>, True)
      })"

fun for_return ::
  "'a list \<Rightarrow> ('a \<Rightarrow> 's \<Rightarrow> ('s \<times> bool) option) \<Rightarrow> 's \<Rightarrow> ('s \<times> bool) option" where
  \<comment> \<open>a \<^verbatim>\<open>for\<close> loop whose body can return from the function (flag \<open>True\<close>)\<close>
  "for_return [] body s = Some (s, False)"
| "for_return (a # as) body s = do {
     (s', returned) \<leftarrow> body a s;
     if returned then Some (s', True) else for_return as body s'
   }"

definition putfonts :: "'r golib \<Rightarrow> 'r Fpdf \<Rightarrow> 'r Fpdf option" where
  "putfonts L f =
     (if err f \<noteq> None then Some f
      else do {
        let nf = n f;
        f \<leftarrow> forM (diffs f) put_diff f;
        (f, returned) \<leftarrow> for_return (fontFiles f) (put_fontfile L) f;
        if returned then Some f
        else do {
          (f, returned) \<leftarrow> for_return (fonts f) (put_font L nf) f;
          Some f
        }
      })"

definition image_dict ::
  "'r golib \<Rightarrow> 'r imageInfoType \<Rightarrow> 'r Fpdf \<Rightarrow> 'r Fpdf option" where
  \<comment> \<open>the dictionary and the stream that \<^verbatim>\<open>putimage\<close> emits after \<^verbatim>\<open>newobj\<close>\<close>
  "image_dict L info f = do {
     f \<leftarrow> out ''<</Type /XObject'' f;
     f \<leftarrow> out ''/Subtype /Image'' f;
     f \<leftarrow> out (''/Width '' @ itoa (ftoi L (w_img info))) f;
     f \<leftarrow> out (''/Height '' @ itoa (ftoi L (h_img info))) f;
     f \<leftarrow> (if cs_img info = ''Indexed''
           then out (''/ColorSpace [/Indexed /DeviceRGB '' @ itoa (int (length (pal_img info)) div 3 - 1)
                     @ '' '' @ itoa (n f + 1) @ '' 0 R]'') f
           else do {
             f \<leftarrow> out (''/ColorSpace /'' @ cs_img info) f;
             if cs_img info = ''DeviceCMYK'' then out ''/Decode [1 0 1 0 1 0 1 0]'' f else Some f
           });
     f \<leftarrow> out (''/BitsPerComponent '' @ itoa (bpc_img info)) f;
     f \<leftarrow> (if length (f_img info) > 0 then out (''/Filter /'' @ f_img info) f else Some f);
     f \<leftarrow> (if length (dp_img info) > 0 then out (''/DecodeParms <<'' @ dp_img info @ ''>>'') f
           else Some f);
     f \<leftarrow> (if length (trns_img info) > 0
           then out (''/Mask ['' @ concat (map (\<lambda>v. itoa v @ '' '' @ itoa v @ '' '') (trns_img info))
                     @ '']'') f
           else Some f);
     f \<leftarrow> (if smask_img info \<noteq> None then out (''/SMask '' @ itoa (n f + 1) @ '' 0 R'') f
           else Some f);
     f \<leftarrow> out (''/Length '' @ itoa (int (length (data_img info))) @ ''>>'') f;
     f \<leftarrow> putstream (data_img info) f;
     out ''endobj'' f
   }"

function putimage ::
  "'r golib \<Rightarrow> 'r imageInfoType \<Rightarrow> 'r Fpdf \<Rightarrow> ('r Fpdf \<times> 'r imageInfoType) option" where
  "putimage L info f = do {
     f \<leftarrow> newobj f;
     let info = info\<lparr>n_img := n f\<rparr>;
     f \<leftarrow> image_dict L info f;
     f \<leftarrow> (if length (case smask_img info of None \<Rightarrow> [] | Some m \<Rightarrow> m) > 0 then do {
             (f, sm) \<leftarrow> putimage L
                \<lparr> data_img = (case smask_img info of None \<Rightarrow> [] | Some m \<Rightarrow> m), smask_img = None,
                  i_img = 0, n_img = 0, w_img = w_img info, h_img = h_img info,
                  cs_img = ''DeviceGray'', pal_img = [], bpc_img = 8, f_img = f_img info,
                  dp_img = ''/Predictor 15 /Colors 1 /BitsPerComponent 8 /Columns ''
                           @ itoa (ftoi L (w_img info)),
                  trns_img = [] \<rparr> f;
             Some f
           } else Some f);
     f \<leftarrow> (if cs_img info = ''Indexed'' then do {
             f \<leftarrow> newobj f;
             f \<leftarrow> (if compress f then do {
                     let pal = sliceCompress L (pal_img info);
                     f \<leftarrow> out (''<</Filter /FlateDecode /Length '' @ itoa (int (length pal)) @ ''>>'') f;
                     putstream pal f
                   } else do {
                     f \<leftarrow> out (''<</Length '' @ itoa (int (length (pal_img info))) @ ''>>'') f;
                     putstream (pal_img info) f
                   });
             out ''endobj'' f
           } else Some f);
     Some (f, info)
   }"
  by pat_completeness auto
termination
  by (relation "measure (\<lambda>(L, info, f). length (case smask_img info of None \<Rightarrow> [] | Some m \<Rightarrow> m))") auto

definition put_image ::
  "'r golib \<Rightarrow> string \<times> 'r imageInfoType \<Rightarrow> 'r Fpdf \<Rightarrow> 'r Fpdf option" where
  \<comment> \<open>the body of the loop of \<^verbatim>\<open>putimages\<close>\<close>
  "put_image L entry f =
     (case entry of (fileStr, img) \<Rightarrow> do {
        (f, img) \<leftarrow> putimage L img f;
        let img = img\<lparr>data_img := [], smask_img := map_option (\<lambda>m. []) (smask_img img)\<rparr>;
        Some (f\<lparr>images := assign fileStr img (images f)\<rparr>)
      })"

definition putimages :: "'r golib \<Rightarrow> 'r Fpdf \<Rightarrow> 'r Fpdf option" where
  "putimages L f = forM (images f) (put_image L) f"

definition putxobjectdict :: "'r Fpdf \<Rightarrow> 'r Fpdf option" where
  "putxobjectdict f =
     forM (images f)
       (\<lambda>entry f. out (''/I'' @ itoa (i_img (snd entry)) @ '' '' @ itoa (n_img (snd entry)) @ '' 0 R'') f) f"

definition putresourcedict :: "'r Fpdf \<Rightarrow> 'r Fpdf option" where
  "putresourcedict f = do {
     f \<leftarrow> out ''/ProcSet [/PDF /Text /ImageB /ImageC /ImageI]'' f;
     f \<leftarrow> out ''/Font <<'' f;
     f \<leftarrow> forM (fonts f)
           (\<lambda>entry f. out (''/F'' @ itoa (I (snd entry)) @ '' '' @ itoa (N (snd entry)) @ '' 0 R'') f) f;
     f \<leftarrow> out ''>>'' f;
     f \<leftarrow> out ''/XObject <<'' f;
     f \<leftarrow> putxobjectdict f;
     out ''>>'' f
   }"

definition putresources :: "'r golib \<Rightarrow> 'r Fpdf \<Rightarrow> 'r Fpdf option" where
  "putresources L f =
     (if err f \<noteq> None then Some f
      else do {
        f \<leftarrow> putfonts L f;
        if err f \<noteq> None then Some f
        else do {
          f \<leftarrow> putimages L f;
          offs \<leftarrow> store (offsets f) 2 (int (length (buffer f)));
          let f = f\<lparr>offsets := offs\<rparr>;
          f \<leftarrow> out ''2 0 obj'' f;
          f \<leftarrow> out ''<<'' f;
          f \<leftarrow> putresourcedict f;
          f \<leftarrow> out ''>>'' f;
          out ''endobj'' f
        }
      })"

subsection \<open>Closing the document\<close>

definition putinfo :: "'r golib \<Rightarrow> 'r Fpdf \<Rightarrow> 'r Fpdf option" where
  "putinfo L f = do {
     f \<leftarrow> out (''/Producer '' @ textstring (''FPDF '' @ FPDF_VERSION L)) f;
     f \<leftarrow> (if length (title f) > 0 then out (''/Title '' @ textstring (title f)) f else Some f);
     f \<leftarrow> (if length (subject f) > 0 then out (''/Subject '' @ textstring (subject f)) f else Some f);
     f \<leftarrow> (if length (author f) > 0 then out (''/Author '' @ textstring (author f)) f else Some f);
     f \<leftarrow> (if length (keywords' f) > 0 then out (''/Keywords '' @ textstring (keywords' f)) f
           else Some f);
     f \<leftarrow> (if length (creator f) > 0 then out (''/Creator '' @ textstring (creator f)) f else Some f);
     out (''/CreationDate '' @ textstring (''D:'' @ Now L)) f
   }"

definition putcatalog :: "'r Fpdf \<Rightarrow> 'r Fpdf option" where
  "putcatalog f = do {
     f \<leftarrow> out ''/Type /Catalog'' f;
     f \<leftarrow> out ''/Pages 1 0 R'' f;
     f \<leftarrow> (if zoomMode f = ''fullpage'' then out ''/OpenAction [3 0 R /Fit]'' f
           else if zoomMode f = ''fullwidth'' then out ''/OpenAction [3 0 R /FitH null]'' f
           else if zoomMode f = ''real'' then out ''/OpenAction [3 0 R /XYZ null null 1]'' f
           else Some f);
     if layoutMode f = ''single'' then out ''/PageLayout /SinglePage'' f
     else if layoutMode f = ''continuous'' then out ''/PageLayout /OneColumn'' f
     else if layoutMode f = ''two'' then out ''/PageLayout /TwoColumnLeft'' f
     else Some f
   }"

definition putheader :: "'r Fpdf \<Rightarrow> 'r Fpdf option" where
  "putheader f = out (''%PDF-'' @ pdfVersion f) f"

definition puttrailer :: "'r Fpdf \<Rightarrow> 'r Fpdf option" where
  "puttrailer f = do {
     f \<leftarrow> out (''/Size '' @ itoa (n f + 1)) f;
     f \<leftarrow> out (''/Root '' @ itoa (n f) @ '' 0 R'') f;
     out (''/Info '' @ itoa (n f - 1) @ '' 0 R'') f
   }"

definition xref_entry :: "int \<Rightarrow> 'r Fpdf \<Rightarrow> 'r Fpdf option" where
  \<comment> \<open>the body of the loop \<^verbatim>\<open>for j := 1; j <= f.n; j++\<close> of \<^verbatim>\<open>enddoc\<close>\<close>
  "xref_entry j f = do {
     off \<leftarrow> index (offsets f) j;
     out (pad10 off @ '' 00000 n '') f
   }"

definition enddoc ::
  "'r::{zero,plus,minus,uminus,times,inverse,ord} golib \<Rightarrow> 'r Fpdf \<Rightarrow> 'r Fpdf option" where
  "enddoc L f =
     (if err f \<noteq> None then Some f
      else do {
        f \<leftarrow> putheader f;
        f \<leftarrow> putpages L f;
        f \<leftarrow> putresources L f;
        if err f \<noteq> None then Some f
        else do {
          f \<leftarrow> newobj f;
          f \<leftarrow> out ''<<'' f;
          f \<leftarrow> putinfo L f;
          f \<leftarrow> out ''>>'' f;
          f \<leftarrow> out ''endobj'' f;
          f \<leftarrow> newobj f;
          f \<leftarrow> out ''<<'' f;
          f \<leftarrow> putcatalog f;
          f \<leftarrow> out ''>>'' f;
          f \<leftarrow> out ''endobj'' f;
          let o' = int (length (buffer f));
          f \<leftarrow> out ''xref'' f;
          f \<leftarrow> out (''0 '' @ itoa (n f + 1)) f;
          f \<leftarrow> out ''0000000000 65535 f '' f;
          f \<leftarrow> forM [1..n f] xref_entry f;
          f \<leftarrow> out ''trailer'' f;
          f \<leftarrow> out ''<<'' f;
          f \<leftarrow> puttrailer f;
          f \<leftarrow> out ''>>'' f;
          f \<leftarrow> out ''startxref'' f;
          f \<leftarrow> out (itoa o') f;
          f \<leftarrow> out ''%%EOF'' f;
          Some (f\<lparr>state := 3\<rparr>)
        }
      })"

definition Close ::
  "'r::{zero,plus,minus,uminus,times,inverse,ord} golib \<Rightarrow> 'r hooks \<Rightarrow> 'r Fpdf \<Rightarrow> 'r Fpdf option" where
  "Close L H f =
     (if err f \<noteq> None then Some f
      else if state f = 3 then Some f
      else do {
        (f, returned) \<leftarrow>
          (if page f = 0 then do { f \<leftarrow> AddPage L H f; Some (f, err f \<noteq> None) }
           else Some (f, False));
        if returned then Some f
        else do {
          f \<leftarrow> (if footerFnc H \<noteq> None then do {
                  f \<leftarrow> run_hook (footerFnc H) (f\<lparr>inFooter := True\<rparr>);
                  Some (f\<lparr>inFooter := False\<rparr>)
                } else Some f);
          let f = endpage f;
          enddoc L f
        }
      })"

text \<open>
  \<^verbatim>\<open>bytes.Buffer.WriteTo\<close> of the Go library: the unread bytes are handed to the writer in
  one \<^verbatim>\<open>Write\<close>; what the writer accepts is consumed, and a buffer that was written out
  completely is reset, that is empty afterwards. A writer is its \<^verbatim>\<open>Write\<close> method: it
  answers with the number of bytes it accepted and an error or none. The result is the
  buffer afterwards, the bytes written and the error.
\<close>

definition WriteTo ::
  "(string \<Rightarrow> nat \<times> string option) \<Rightarrow> string \<Rightarrow> (string \<times> string \<times> string option) option" where
  "WriteTo wr buf =
     (if length buf > 0 then
        (case wr buf of (m, e) \<Rightarrow>
           if m > length buf then None
           else if e \<noteq> None then Some (drop m buf, take m buf, e)
           else if m \<noteq> length buf then Some (drop m buf, take m buf, Some ''short write'')
           else Some ([], buf, None))
      else Some ([], [], None))"

text \<open>
  \<^verbatim>\<open>Output\<close> returns the document, the bytes that reached the writer and the error it
  returns.
\<close>

definition Output ::
  "'r::{zero,plus,minus,uminus,times,inverse,ord} golib \<Rightarrow> 'r hooks
     \<Rightarrow> (string \<Rightarrow> nat \<times> string option) \<Rightarrow> 'r Fpdf
     \<Rightarrow> ('r Fpdf \<times> string \<times> string option) option" where
  "Output L H wr f =
     (if err f \<noteq> None then Some (f, [], err f)
      else do {
        f \<leftarrow> (if state f < 3 then Close L H f else Some f);
        (buf, written, e) \<leftarrow> WriteTo wr (buffer f);
        let f = f\<lparr>buffer := buf\<rparr>;
        let f = (if e \<noteq> None then f\<lparr>err := e\<rparr> else f);
        Some (f, written, err f)
      })"

subsection \<open>Images\<close>

text \<open>
  The three parsers of image files read the file system; \<^verbatim>\<open>Image\<close> takes them as
  parameters. A parser returns the image information and the document, in which it may
  have latched an error.
\<close>

record 'r parsers =
  parsejpg :: "string \<Rightarrow> 'r Fpdf \<Rightarrow> ('r imageInfoType \<times> 'r Fpdf) option"
  parsepng :: "string \<Rightarrow> 'r Fpdf \<Rightarrow> ('r imageInfoType \<times> 'r Fpdf) option"
  parsegif :: "string \<Rightarrow> 'r Fpdf \<Rightarrow> ('r imageInfoType \<times> 'r Fpdf) option"

definition zero_image :: "'r::zero imageInfoType" where
  "zero_image = \<lparr> data_img = [], smask_img = None, i_img = 0, n_img = 0, w_img = 0, h_img = 0,
                  cs_img = [], pal_img = [], bpc_img = 0, f_img = [], dp_img = [], trns_img = [] \<rparr>"

fun LastIndex :: "string \<Rightarrow> char \<Rightarrow> int \<Rightarrow> int \<Rightarrow> int" where
  \<comment> \<open>\<^verbatim>\<open>strings.LastIndex(s, c)\<close>, scanning from position \<open>i\<close> with the last match \<open>found\<close>\<close>
  "LastIndex [] c i found = found"
| "LastIndex (d # s) c i found = LastIndex s c (i + 1) (if d = c then i else found)"

definition Image ::
  "'r::{zero,plus,minus,uminus,times,inverse,ord} golib \<Rightarrow> 'r parsers \<Rightarrow> 'r hooks \<Rightarrow> string
     \<Rightarrow> 'r \<Rightarrow> 'r \<Rightarrow> 'r \<Rightarrow> 'r \<Rightarrow> bool \<Rightarrow> string \<Rightarrow> int \<Rightarrow> string \<Rightarrow> 'r Fpdf \<Rightarrow> 'r Fpdf option" where
  "Image L P H fileStr x' y' w' h' flow tp link linkStr f =
     (if err f \<noteq> None then Some f
      else do {
        (info, f, returned) \<leftarrow>
          (case lookup (images f) fileStr of
             Some info \<Rightarrow> Some (info, f, False)
           | None \<Rightarrow>
               let pos = LastIndex fileStr CHR ''.'' 0 (- 1)
               in if tp = [] \<and> pos < 0
                  then Some (zero_image,
                             f\<lparr>err := Some (''Image file has no extension and no type was specified: ''
                                              @ fileStr)\<rparr>, True)
                  else do {
                    let tp = (if tp = [] then drop (nat (pos + 1)) fileStr else tp);
                    let tp = ToLower L tp;
                    let tp = (if tp = ''jpeg'' then ''jpg'' else tp);
                    (info, f) \<leftarrow>
                      (if tp = ''jpg'' then parsejpg P fileStr f
                       else if tp = ''png'' then parsepng P fileStr f
                       else if tp = ''gif'' then parsegif P fileStr f
                       else Some (zero_image, f\<lparr>err := Some (''Unsupported image type: '' @ tp)\<rparr>));
                    if err f \<noteq> None then Some (info, f, True)
                    else do {
                      let info = info\<lparr>i_img := int (length (images f)) + 1\<rparr>;
                      Some (info, f\<lparr>images := assign fileStr info (images f)\<rparr>, False)
                    }
                  });
        if returned then Some f
        else do {
          let (w', h') = (if feq L w' 0 \<and> feq L h' 0 then (flt L (- 96), flt L (- 96)) else (w', h'));
          let w' = (if w' < 0 then - w_img info * flt L 72 / w' / k f else w');
          let h' = (if h' < 0 then - h_img info * flt L 72 / h' / k f else h');
          let w' = (if feq L w' 0 then h' * w_img info / h_img info else w');
          let h' = (if feq L h' 0 then w' * h_img info / w_img info else h');
          (f, y', returned) \<leftarrow>
            (if flow then do {
               (f, returned) \<leftarrow>
                 (if y f + h' > pageBreakTrigger f \<and> \<not> inHeader f \<and> \<not> inFooter f
                     \<and> acceptPageBreak H f
                  then do {
                    let x2 = x f;
                    f \<leftarrow> AddPageFormat L H (curOrientation f) (curPageSize f) f;
                    if err f \<noteq> None then Some (f, True) else Some (f\<lparr>x := x2\<rparr>, False)
                  } else Some (f, False));
               if returned then Some (f, y', True)
               else Some (f\<lparr>y := y f + h'\<rparr>, y f, False)
             } else Some (f, y', False));
          if returned then Some f
          else do {
            let x' = (if x' < 0 then x f else x');
            f \<leftarrow> out (''q '' @ fmt2 L (w' * k f) @ '' 0 0 '' @ fmt2 L (h' * k f) @ '' ''
                       @ fmt2 L (x' * k f) @ '' '' @ fmt2 L ((h f - (y' + h')) * k f)
                       @ '' cm /I'' @ itoa (i_img info) @ '' Do Q'') f;
            if link > 0 \<or> length linkStr > 0 then newLink x' y' w' h' link linkStr f else Some f
          }
        }
      })"

section \<open>The text of the serialised pages\<close>

text \<open>
  The bytes that \<^verbatim>\<open>putpages\<close> appends for one page, as a function of the document: the
  page object with number \<open>num\<close> and, right after it, its contents object with number
  \<open>num + 1\<close>.
\<close>

definition page_dict_lines ::
  "'r::{zero,plus,minus,uminus,times,inverse,ord} golib \<Rightarrow> 'r \<Rightarrow> int \<Rightarrow> 'r Fpdf \<Rightarrow> string option" where
  \<comment> \<open>the lines of the page dictionary between \<^verbatim>\<open>/Parent\<close> and \<^verbatim>\<open>/Contents\<close>\<close>
  "page_dict_lines L hPt' m f = do {
     pls \<leftarrow> index (pageLinks f) m;
     annots \<leftarrow> (if length pls > 0 then do {
                  a \<leftarrow> concatM pls (link_annot L hPt' f);
                  Some (''/Annots ['' @ a @ '']'' @ newline)
                } else Some []);
     Some ((case lookup (pageSizes f) m of
              Some pageSize \<Rightarrow> (''/MediaBox [0 0 '' @ fmt2 L (wd pageSize) @ '' ''
                                 @ fmt2 L (ht pageSize) @ '']'') @ newline
            | None \<Rightarrow> [])
           @ ''/Resources 2 0 R'' @ newline
           @ annots
           @ (if strless ''1.3'' (pdfVersion f)
              then ''/Group <</Type /Group /S /Transparency /CS /DeviceRGB>>'' @ newline
              else []))
   }"

definition page_stream_lines :: "'r golib \<Rightarrow> int \<Rightarrow> 'r Fpdf \<Rightarrow> string option" where
  \<comment> \<open>the dictionary and the stream of the contents object\<close>
  "page_stream_lines L m f = do {
     p \<leftarrow> index (pages f) m;
     Some (if compress f
           then ''<</Filter /FlateDecode /Length '' @ itoa (int (length (sliceCompress L p))) @ ''>>''
                @ newline @ ''stream'' @ newline @ sliceCompress L p @ newline
                @ ''endstream'' @ newline
           else ''<</Length '' @ itoa (int (length p)) @ ''>>'' @ newline
                @ ''stream'' @ newline @ p @ newline @ ''endstream'' @ newline)
   }"

definition page_objects ::
  "'r::{zero,plus,minus,uminus,times,inverse,ord} golib \<Rightarrow> 'r \<Rightarrow> int \<Rightarrow> int \<Rightarrow> 'r Fpdf \<Rightarrow> string option" where
  "page_objects L hPt' num m f = do {
     mid \<leftarrow> page_dict_lines L hPt' m f;
     strm \<leftarrow> page_stream_lines L m f;
     Some (itoa num @ '' 0 obj'' @ newline
           @ ''<</Type /Page'' @ newline
           @ ''/Parent 1 0 R'' @ newline
           @ mid
           @ ''/Contents '' @ itoa (num + 1) @ '' 0 R>>'' @ newline
           @ ''endobj'' @ newline
           @ itoa (num + 1) @ '' 0 obj'' @ newline
           @ strm
           @ ''endobj'' @ newline)
   }"

fun pages_text ::
  "'r::{zero,plus,minus,uminus,times,inverse,ord} golib \<Rightarrow> 'r \<Rightarrow> int \<Rightarrow> int list \<Rightarrow> 'r Fpdf \<Rightarrow> string option" where
  \<comment> \<open>the objects of the pages \<open>ms\<close>, numbered from \<open>num\<close> on\<close>
  "pages_text L hPt' num [] f = Some []"
| "pages_text L hPt' num (m # ms) f = do {
     t \<leftarrow> page_objects L hPt' num m f;
     ts \<leftarrow> pages_text L hPt' (num + 2) ms f;
     Some (t @ ts)
   }"

section \<open>A library instance for evaluation\<close>

text \<open>
  An instance of the library with exact rational arithmetic, ASCII case mapping and an
  identity compressor; the model is evaluated with it on concrete inputs.
\<close>

definition fixed :: "nat \<Rightarrow> rat \<Rightarrow> string" where
  \<comment> \<open>\<^verbatim>\<open>%.<p>f\<close> of an exact number, rounding half to even\<close>
  "fixed p q =
     (let s = \<bar>q\<bar> * 10 ^ p;
          fl = \<lfloor>s\<rfloor>;
          r = (if s - of_int fl < 1 / 2 then fl
               else if 1 / 2 < s - of_int fl then fl + 1
               else if even fl then fl else fl + 1);
          frac = digits (nat (r mod 10 ^ p))
      in (if q < 0 then ''-'' else [])
         @ digits (nat (r div 10 ^ p))
         @ (if p = 0 then [] else CHR ''.'' # replicate (p - length frac) CHR ''0'' @ frac))"

definition ascii_upper :: "string \<Rightarrow> string" where
  "ascii_upper = map (\<lambda>c. if (97::nat) \<le> of_char c \<and> of_char c \<le> (122::nat)
                              then char_of (of_char c - (32::nat)) else c)"

definition ascii_lower :: "string \<Rightarrow> string" where
  "ascii_lower = map (\<lambda>c. if (65::nat) \<le> of_char c \<and> of_char c \<le> (90::nat)
                              then char_of (of_char c + (32::nat)) else c)"

definition lib0 :: "rat golib" where
  "lib0 = \<lparr> flt = (\<lambda>q. q), feq = (\<lambda>a b. a = b), ftoi = (\<lambda>q. if q < 0 then - \<lfloor>- q\<rfloor> else \<lfloor>q\<rfloor>),
            fmt2 = fixed 2, fmt3 = fixed 3,
            ToUpper = ascii_upper, ToLower = ascii_lower,
            runes = map (\<lambda>c. int (of_char c)),
            Join = (\<lambda>d s. if d = ''.'' \<or> d = [] then s else d @ ''/'' @ s),
            ReadFile = (\<lambda>s. Inl ''no such file or directory''),
            Unmarshal = (\<lambda>s. (Some ''unexpected end of JSON input'', zero_font)),
            sliceCompress = (\<lambda>s. s), sliceUncompress = (\<lambda>s. Inr s),
            Now = ''20130715120000'', FPDF_VERSION = ''1.7'' \<rparr>"

text \<open>
  A font directory with one definition file, \<^verbatim>\<open>euro.json\<close>, of a Type1 font that
  carries the encoding differences \<^verbatim>\<open>128 /Euro\<close>.
\<close>

definition euro_font :: fontDefType where
  "euro_font = zero_font\<lparr>Tp := ''Type1'', Name := ''EuroSans'', Diff := ''128 /Euro''\<rparr>"

definition lib_euro :: "rat golib" where
  "lib_euro = lib0\<lparr>
     ReadFile := (\<lambda>p. if p = ''euro.json'' then Inr ''euro'' else Inl ''no such file or directory''),
     Unmarshal := (\<lambda>s. if s = ''euro'' then (None, euro_font)
                        else (Some ''unexpected end of JSON input'', zero_font))\<rparr>"

text \<open>A writer that accepts every byte it is given.\<close>

definition wr_all :: "string \<Rightarrow> nat \<times> string option" where
  "wr_all b = (length b, None)"

section \<open>Properties\<close>

subsection \<open>PNG alpha separation\<close>

declare gray_row.simps [simp del] gray_rows.simps [simp del]
declare rgb_row.simps [simp del] rgb_rows.simps [simp del]

lemma interleave_append:
  "length cs = nc * length as \<Longrightarrow>
   interleave nc (cs @ cs') (as @ as') = interleave nc cs as @ interleave nc cs' as'"
  by (induction as arbitrary: cs) auto

lemma gray_row_ok:
  "0 \<le> elPos \<Longrightarrow> px \<le> width \<Longrightarrow> elPos + 2 * (width - px) \<le> int (length data) \<Longrightarrow>
   \<exists>cs as. gray_row data width px elPos color alpha = Some (color @ cs, alpha @ as)
     \<and> length cs = nat (width - px) \<and> length as = nat (width - px)
     \<and> interleave 1 cs as = take (nat (2 * (width - px))) (drop (nat elPos) data)"
proof (induction data width px elPos color alpha rule: gray_row.induct)
  case (1 data width px elPos color alpha)
  show ?case
  proof (cases "px < width")
    case False
    with 1 show ?thesis by (simp add: gray_row.simps)
  next
    case True
    let ?c = "data ! nat elPos" and ?a = "data ! nat (elPos + 1)"
    have ic: "index data elPos = Some ?c" and ia: "index data (elPos + 1) = Some ?a"
      using 1(2-4) True by (auto simp: index_def)
    from "1.IH"[OF True ic ia] 1(2-4) True
    obtain cs as where r: "gray_row data width (px + 1) (elPos + 2) (color @ [?c]) (alpha @ [?a])
         = Some ((color @ [?c]) @ cs, (alpha @ [?a]) @ as)"
       and l: "length cs = nat (width - (px + 1))" "length as = nat (width - (px + 1))"
       and il: "interleave 1 cs as = take (nat (2 * (width - (px + 1)))) (drop (nat (elPos + 2)) data)"
      by force
    have n2: "nat (2 * (width - px)) = Suc (Suc (nat (2 * (width - (px + 1)))))"
      using True by simp
    have d: "drop (nat elPos) data = ?c # ?a # drop (nat (elPos + 2)) data"
    proof -
      have "nat elPos < length data" "Suc (nat elPos) < length data"
        using 1(2-4) True by auto
      then have "drop (nat elPos) data = data ! nat elPos # data ! Suc (nat elPos) # drop (Suc (Suc (nat elPos))) data"
        by (simp add: Cons_nth_drop_Suc)
      moreover have "nat (elPos + 1) = Suc (nat elPos)" "nat (elPos + 2) = Suc (Suc (nat elPos))"
        using 1(2) by auto
      ultimately show ?thesis by simp
    qed
    show ?thesis
      apply (subst gray_row.simps)
      apply (rule exI[of _ "?c # cs"], rule exI[of _ "?a # as"])
      using True ic ia r l il n2 d by (simp add: nat_diff_distrib)
  qed
qed


lemma rgb_row_ok:
  "0 \<le> elPos \<Longrightarrow> px \<le> width \<Longrightarrow> elPos + 4 * (width - px) \<le> int (length data) \<Longrightarrow>
   \<exists>cs as. rgb_row data width px elPos color alpha = Some (color @ cs, alpha @ as)
     \<and> length cs = 3 * nat (width - px) \<and> length as = nat (width - px)
     \<and> interleave 3 cs as = take (nat (4 * (width - px))) (drop (nat elPos) data)"
proof (induction data width px elPos color alpha rule: rgb_row.induct)
  case (1 data width px elPos color alpha)
  show ?case
  proof (cases "px < width")
    case False
    with 1 show ?thesis by (simp add: rgb_row.simps)
  next
    case True
    let ?c = "take 3 (drop (nat elPos) data)" and ?a = "data ! nat (elPos + 3)"
    have ic: "slice data elPos (elPos + 3) = Some ?c" and ia: "index data (elPos + 3) = Some ?a"
      using 1(2-4) True by (auto simp: index_def slice_def)
    have lc: "length ?c = 3" using 1(2-4) True by auto
    from "1.IH"[OF True ic ia] 1(2-4) True
    obtain cs as where r: "rgb_row data width (px + 1) (elPos + 4) (color @ ?c) (alpha @ [?a])
         = Some ((color @ ?c) @ cs, (alpha @ [?a]) @ as)"
       and l: "length cs = 3 * nat (width - (px + 1))" "length as = nat (width - (px + 1))"
       and il: "interleave 3 cs as = take (nat (4 * (width - (px + 1)))) (drop (nat (elPos + 4)) data)"
      by force
    have n2: "nat (4 * (width - px)) = 4 + nat (4 * (width - (px + 1)))"
      using True by simp
    have d: "take (4 + m) (drop (nat elPos) data) = ?c @ ?a # take m (drop (nat (elPos + 4)) data)" for m
    proof -
      have lt: "nat elPos + 3 < length data"
        using 1(2-4) True by auto
      have e: "nat (elPos + 3) = nat elPos + 3" "nat (elPos + 4) = nat elPos + 4"
        using 1(2) by auto
      have a1: "drop (nat elPos) data = take 3 (drop (nat elPos) data) @ drop (nat elPos + 3) data"
        by (metis append_take_drop_id drop_drop add.commute)
      have a2: "drop (nat elPos + 3) data = data ! (nat elPos + 3) # drop (nat elPos + 4) data"
        using lt Cons_nth_drop_Suc[of "nat elPos + 3" data] by (simp add: add.commute)
      have "drop (nat elPos) data = ?c @ ?a # drop (nat (elPos + 4)) data"
        using a1 a2 e by simp
      then have "take (4 + m) (drop (nat elPos) data) = take (4 + m) (?c @ ?a # drop (nat (elPos + 4)) data)"
        by simp
      also have "\<dots> = ?c @ ?a # take m (drop (nat (elPos + 4)) data)"
        using lc by (simp del: length_take)
      finally show ?thesis .
    qed
    have len: "length (?c @ cs) = 3 * nat (width - px)"
      using lc l True by (simp add: nat_diff_distrib del: length_take)
    have iv: "interleave 3 (?c @ cs) (?a # as) = ?c @ ?a # interleave 3 cs as"
      using lc by (simp del: length_take)
    show ?thesis
      apply (subst rgb_row.simps)
      apply (rule exI[of _ "?c @ cs"], rule exI[of _ "?a # as"])
      using True ic ia r l(2) il len iv d[of "nat (4 * (width - (px + 1)))"] n2
      by (simp add: nat_diff_distrib del: interleave.simps length_take)
  qed
qed

lemma gray_rows_ok:
  "0 \<le> width \<Longrightarrow> 0 \<le> i \<Longrightarrow> i \<le> height \<Longrightarrow> (1 + 2 * width) * height \<le> int (length data) \<Longrightarrow>
   \<exists>C A. gray_rows data width height i color alpha = Some (color @ C, alpha @ A)
     \<and> merge_rows 1 (nat width) (nat (height - i)) C A
         = Some (take (nat ((1 + 2 * width) * (height - i))) (drop (nat ((1 + 2 * width) * i)) data))"
proof (induction data width height i color alpha rule: gray_rows.induct)
  case (1 data width height i color alpha)
  let ?rw = "1 + 2 * width"
  show ?case
  proof (cases "i < height")
    case False
    with 1 show ?thesis by (simp add: gray_rows.simps)
  next
    case True
    let ?pos = "?rw * i"
    let ?ft = "data ! nat ?pos"
    have pos0: "0 \<le> ?pos" using 1(2,3) by simp
    have le: "?rw * (i + 1) \<le> ?rw * height"
      using True 1(2) by (intro mult_left_mono) auto
    then have bound: "?pos + 1 + 2 * width \<le> int (length data)"
      using 1(5) by (simp add: algebra_simps)
    have ift: "index data ?pos = Some ?ft"
      using pos0 bound 1(2) by (auto simp: index_def)
    from gray_row_ok[of "?pos + 1" 0 width data "color @ [?ft]" "alpha @ [?ft]"] pos0 bound 1(2)
    obtain cs as where row: "gray_row data width 0 (?pos + 1) (color @ [?ft]) (alpha @ [?ft])
          = Some ((color @ [?ft]) @ cs, (alpha @ [?ft]) @ as)"
      and l: "length cs = nat width" "length as = nat width"
      and il: "interleave 1 cs as = take (nat (2 * width)) (drop (nat (?pos + 1)) data)"
      by auto
    from "1.IH"[OF True refl ift row refl] 1(2-5) True
    obtain C A where rest: "gray_rows data width height (i + 1) ((color @ [?ft]) @ cs) ((alpha @ [?ft]) @ as)
          = Some (((color @ [?ft]) @ cs) @ C, ((alpha @ [?ft]) @ as) @ A)"
      and m: "merge_rows 1 (nat width) (nat (height - (i + 1))) C A
         = Some (take (nat (?rw * (height - (i + 1)))) (drop (nat (?rw * (i + 1))) data))"
      by force
    have hs: "nat (height - i) = Suc (nat (height - (i + 1)))" using True by simp
    have split: "take (nat (?rw * (height - i))) (drop (nat ?pos) data)
         = ?ft # take (nat (2 * width)) (drop (nat (?pos + 1)) data)
             @ take (nat (?rw * (height - (i + 1)))) (drop (nat (?rw * (i + 1))) data)"
    proof -
      have lt: "nat ?pos < length data" using pos0 bound 1(2) by auto
      have e1: "nat (?rw * (height - i)) = Suc (nat (2 * width) + nat (?rw * (height - (i + 1))))"
      proof -
        have "0 \<le> ?rw * (height - (i + 1))" using True 1(2) by simp
        moreover have "?rw * (height - i) = 1 + 2 * width + ?rw * (height - (i + 1))"
          by (simp add: algebra_simps)
        ultimately show ?thesis using 1(2) by (simp add: nat_add_distrib)
      qed
      have e2: "nat (?rw * (i + 1)) = nat (?pos + 1) + nat (2 * width)"
      proof -
        have "?rw * (i + 1) = (?pos + 1) + 2 * width" by (simp add: algebra_simps)
        then show ?thesis using pos0 1(2) by (simp add: nat_add_distrib)
      qed
      have e3: "nat (?pos + 1) = Suc (nat ?pos)" using pos0 by simp
      have "drop (nat ?pos) data = ?ft # drop (nat (?pos + 1)) data"
        using lt e3 by (simp add: Cons_nth_drop_Suc)
      then show ?thesis
        unfolding e1 e2 by (simp add: take_add add.commute)
    qed
    show ?thesis
      apply (subst gray_rows.simps)
      apply (rule exI[of _ "?ft # cs @ C"], rule exI[of _ "?ft # as @ A"])
      using True ift row rest l il m hs split
      by (simp add: Let_def del: interleave.simps)
  qed
qed

lemma rgb_rows_ok:
  "0 \<le> width \<Longrightarrow> 0 \<le> i \<Longrightarrow> i \<le> height \<Longrightarrow> (1 + 4 * width) * height \<le> int (length data) \<Longrightarrow>
   \<exists>C A. rgb_rows data width height i color alpha = Some (color @ C, alpha @ A)
     \<and> merge_rows 3 (nat width) (nat (height - i)) C A
         = Some (take (nat ((1 + 4 * width) * (height - i))) (drop (nat ((1 + 4 * width) * i)) data))"
proof (induction data width height i color alpha rule: rgb_rows.induct)
  case (1 data width height i color alpha)
  let ?rw = "1 + 4 * width"
  show ?case
  proof (cases "i < height")
    case False
    with 1 show ?thesis by (simp add: rgb_rows.simps)
  next
    case True
    let ?pos = "?rw * i"
    let ?ft = "data ! nat ?pos"
    have pos0: "0 \<le> ?pos" using 1(2,3) by simp
    have le: "?rw * (i + 1) \<le> ?rw * height"
      using True 1(2) by (intro mult_left_mono) auto
    then have bound: "?pos + 1 + 4 * width \<le> int (length data)"
      using 1(5) by (simp add: algebra_simps)
    have ift: "index data ?pos = Some ?ft"
      using pos0 bound 1(2) by (auto simp: index_def)
    from rgb_row_ok[of "?pos + 1" 0 width data "color @ [?ft]" "alpha @ [?ft]"] pos0 bound 1(2)
    obtain cs as where row: "rgb_row data width 0 (?pos + 1) (color @ [?ft]) (alpha @ [?ft])
          = Some ((color @ [?ft]) @ cs, (alpha @ [?ft]) @ as)"
      and l: "length cs = 3 * nat width" "length as = nat width"
      and il: "interleave 3 cs as = take (nat (4 * width)) (drop (nat (?pos + 1)) data)"
      by auto
    from "1.IH"[OF True refl ift row refl] 1(2-5) True
    obtain C A where rest: "rgb_rows data width height (i + 1) ((color @ [?ft]) @ cs) ((alpha @ [?ft]) @ as)
          = Some (((color @ [?ft]) @ cs) @ C, ((alpha @ [?ft]) @ as) @ A)"
      and m: "merge_rows 3 (nat width) (nat (height - (i + 1))) C A
         = Some (take (nat (?rw * (height - (i + 1)))) (drop (nat (?rw * (i + 1))) data))"
      by force
    have hs: "nat (height - i) = Suc (nat (height - (i + 1)))" using True by simp
    have split: "take (nat (?rw * (height - i))) (drop (nat ?pos) data)
         = ?ft # take (nat (4 * width)) (drop (nat (?pos + 1)) data)
             @ take (nat (?rw * (height - (i + 1)))) (drop (nat (?rw * (i + 1))) data)"
    proof -
      have lt: "nat ?pos < length data" using pos0 bound 1(2) by auto
      have e1: "nat (?rw * (height - i)) = Suc (nat (4 * width) + nat (?rw * (height - (i + 1))))"
      proof -
        have "0 \<le> ?rw * (height - (i + 1))" using True 1(2) by simp
        moreover have "?rw * (height - i) = 1 + 4 * width + ?rw * (height - (i + 1))"
          by (simp add: algebra_simps)
        ultimately show ?thesis using 1(2) by (simp add: nat_add_distrib)
      qed
      have e2: "nat (?rw * (i + 1)) = nat (?pos + 1) + nat (4 * width)"
      proof -
        have "?rw * (i + 1) = (?pos + 1) + 4 * width" by (simp add: algebra_simps)
        then show ?thesis using pos0 1(2) by (simp add: nat_add_distrib)
      qed
      have e3: "nat (?pos + 1) = Suc (nat ?pos)" using pos0 by simp
      have "drop (nat ?pos) data = ?ft # drop (nat (?pos + 1)) data"
        using lt e3 by (simp add: Cons_nth_drop_Suc)
      then show ?thesis
        unfolding e1 e2 by (simp add: take_add add.commute)
    qed
    show ?thesis
      apply (subst rgb_rows.simps)
      apply (rule exI[of _ "?ft # cs @ C"], rule exI[of _ "?ft # as @ A"])
      using True ift row rest l il m hs split
      by (simp add: Let_def del: interleave.simps)
  qed
qed

text \<open>
  Claim C6. For a PNG image of colour type 4 or 6 whose inflated data holds the rows of
  the image, the alpha separation of \<^verbatim>\<open>parsepngstream\<close> returns two compressed streams,
  and inflating both and merging them row by row (filter-type byte, then per pixel the
  colour bytes and the alpha byte) gives back the interleaved rows exactly.
\<close>

theorem png_alpha_split_lossless:
  assumes ct: "ct = 4 \<or> ct = 6"
    and dims: "0 \<le> wdt" "0 \<le> hgt"
    and inflate: "sliceUncompress L idat = Inr raw"
    and rows: "(1 + (if ct = 4 then 2 else 4) * wdt) * hgt \<le> int (length raw)"
    and zlib: "\<And>b. sliceUncompress L (sliceCompress L b) = Inr b"
  shows "\<exists>cdata sm color alpha.
           separate_alpha L ct wdt hgt idat = Some (Inr (cdata, sm))
         \<and> sliceUncompress L cdata = Inr color
         \<and> sliceUncompress L sm = Inr alpha
         \<and> merge_rows (if ct = 4 then 1 else 3) (nat wdt) (nat hgt) color alpha
             = Some (take (nat ((1 + (if ct = 4 then 2 else 4) * wdt) * hgt)) raw)"
proof (cases "ct = 4")
  case True
  from gray_rows_ok[of wdt 0 hgt raw "[]" "[]"] dims rows True
  obtain C A where "gray_rows raw wdt hgt 0 [] [] = Some (C, A)"
    and "merge_rows 1 (nat wdt) (nat hgt) C A = Some (take (nat ((1 + 2 * wdt) * hgt)) raw)"
    by auto
  then show ?thesis
    using True inflate zlib by (simp add: separate_alpha_def)
next
  case False
  from rgb_rows_ok[of wdt 0 hgt raw "[]" "[]"] dims rows False
  obtain C A where "rgb_rows raw wdt hgt 0 [] [] = Some (C, A)"
    and "merge_rows 3 (nat wdt) (nat hgt) C A = Some (take (nat ((1 + 4 * wdt) * hgt)) raw)"
    by auto
  then show ?thesis
    using False inflate zlib by (simp add: separate_alpha_def)
qed

theorem png_alpha_split_lossless_witness:
  "separate_alpha lib0 4 2 2 ''0abcd1efgh'' = Some (Inr (''0ac1eg'', ''0bd1fh''))
   \<and> merge_rows 1 2 2 ''0ac1eg'' ''0bd1fh'' = Some ''0abcd1efgh''
   \<and> separate_alpha lib0 6 1 2 ''0RGBA1rgba'' = Some (Inr (''0RGB1rgb'', ''0A1a''))
   \<and> merge_rows 3 1 2 ''0RGB1rgb'' ''0A1a'' = Some ''0RGBA1rgba''"
proof -
  have z: "\<And>b. sliceUncompress lib0 (sliceCompress lib0 b) = Inr b"
    and u: "\<And>b. sliceUncompress lib0 b = Inr b" and c: "\<And>b. sliceCompress lib0 b = b"
    by (simp_all add: lib0_def)
  have "\<exists>cdata sm color alpha.
           separate_alpha lib0 4 2 2 ''0abcd1efgh'' = Some (Inr (cdata, sm))
         \<and> sliceUncompress lib0 cdata = Inr color \<and> sliceUncompress lib0 sm = Inr alpha
         \<and> merge_rows (if (4::int) = 4 then 1 else 3) (nat 2) (nat 2) color alpha
             = Some (take (nat ((1 + (if (4::int) = 4 then 2 else 4) * 2) * 2)) ''0abcd1efgh'')"
    by (rule png_alpha_split_lossless[OF _ _ _ u _ z]) simp_all
  moreover have "separate_alpha lib0 4 2 2 ''0abcd1efgh'' = Some (Inr (''0ac1eg'', ''0bd1fh''))"
    by (simp add: separate_alpha_def u c gray_rows.simps gray_row.simps index_def)
  moreover have "\<exists>cdata sm color alpha.
           separate_alpha lib0 6 1 2 ''0RGBA1rgba'' = Some (Inr (cdata, sm))
         \<and> sliceUncompress lib0 cdata = Inr color \<and> sliceUncompress lib0 sm = Inr alpha
         \<and> merge_rows (if (6::int) = 4 then 1 else 3) (nat 1) (nat 2) color alpha
             = Some (take (nat ((1 + (if (6::int) = 4 then 2 else 4) * 1) * 2)) ''0RGBA1rgba'')"
    by (rule png_alpha_split_lossless[OF _ _ _ u _ z]) simp_all
  moreover have "separate_alpha lib0 6 1 2 ''0RGBA1rgba'' = Some (Inr (''0RGB1rgb'', ''0A1a''))"
    by (simp add: separate_alpha_def u c rgb_rows.simps rgb_row.simps index_def slice_def)
  ultimately show ?thesis
    by (auto simp: u)
qed

subsection \<open>The encoding differences of a font\<close>

lemma search_diffs_absent: "d \<notin> set ds \<Longrightarrow> search_diffs ds d j = - 1"
  by (induction ds arbitrary: j) auto

lemma AddFont_new_diff_panics:
  assumes "err f = None"
    and "lookup (fonts f) (ToLower L familyStr
           @ (if ToUpper L styleStr = ''IB'' then ''BI'' else ToUpper L styleStr)) = None"
    and "fileStr \<noteq> []"
    and "ReadFile L (Join L (fontpath f) fileStr) = Inr buf"
    and "Unmarshal L buf = (None, def)"
    and "Diff def \<noteq> []" and "Diff def \<notin> set (diffs f)"
  shows "AddFont L familyStr styleStr fileStr f = None"
  using assms
  by (simp add: AddFont_def loadfont_def Let_def search_diffs_absent store_def)

text \<open>
  Claim C3. On a new document, adding a font whose definition carries a non-empty table
  of encoding differences does not complete: the table is not in the (empty) list of
  differences, and the assignment \<^verbatim>\<open>f.diffs[n] = info.Diff\<close> at index
  \<^verbatim>\<open>len(f.diffs) + 1\<close> is out of range.
\<close>

theorem AddFont_diff_panics:
  "err (New lib_euro [] [] [] []) = None
   \<and> diffs (New lib_euro [] [] [] []) = []
   \<and> AddFont lib_euro ''euro'' [] ''euro.json'' (New lib_euro [] [] [] []) = None"
  by code_simp

subsection \<open>The latched error\<close>

text \<open>
  Claim C1, as stated, fails: \<^verbatim>\<open>SetDrawColor\<close> and \<^verbatim>\<open>SetX\<close> change the document although
  an error is latched (here the error of \<^verbatim>\<open>New\<close> for an unknown unit).
\<close>

theorem setters_ignore_latch:
  "err (New lib0 [] ''xx'' [] []) = Some ''Incorrect unit xx''
   \<and> drawColor (New lib0 [] ''xx'' [] []) = ''0 G''
   \<and> map_option drawColor (SetDrawColor lib0 255 0 0 (New lib0 [] ''xx'' [] []))
       = Some ''1.000 0.000 0.000 RG''
   \<and> x (New lib0 [] ''xx'' [] []) = 0
   \<and> x (SetX 5 (New lib0 [] ''xx'' [] [])) = 5"
  by code_simp

text \<open>
  Claim C1, amended. The operations that test the latch (\<^verbatim>\<open>CellFormat\<close> and \<^verbatim>\<open>Cell\<close>,
  \<^verbatim>\<open>AddPage\<close>, \<^verbatim>\<open>AddPageFormat\<close>, \<^verbatim>\<open>SetFont\<close>, \<^verbatim>\<open>AddFont\<close>, \<^verbatim>\<open>SetDisplayMode\<close>, \<^verbatim>\<open>Image\<close>,
  \<^verbatim>\<open>Close\<close>, \<^verbatim>\<open>Output\<close>) return at once and leave the whole document unchanged when an
  error is latched; \<^verbatim>\<open>Output\<close> writes nothing and returns the error. The setters of
  colours, margins and cursor do not test the latch: they store their value whether an
  error is latched or not.
\<close>

theorem latched_error_guards:
  assumes "err f \<noteq> None"
  shows "CellFormat L H w' h' txtStr borderStr ln' alignStr fill link linkStr f = Some f
       \<and> Cell L H w' h' txtStr f = Some f
       \<and> AddPage L H f = Some f
       \<and> AddPageFormat L H orientationStr size' f = Some f
       \<and> SetFont L familyStr styleStr fontsize f = Some f
       \<and> AddFont L familyStr styleStr fileStr f = Some f
       \<and> SetDisplayMode zoomStr layoutStr f = f
       \<and> Image L P H imageStr x' y' w' h' flow tp link linkStr f = Some f
       \<and> Close L H f = Some f
       \<and> Output L H wr f = Some (f, [], err f)
       \<and> map_option drawColor (SetDrawColor L r g b f)
           = map_option (\<lambda>f'. colorString L r g b ''G'' ''RG'') (SetDrawColor L r g b f)
       \<and> map_option fillColor (SetFillColor L r g b f)
           = map_option (\<lambda>f'. colorString L r g b ''g'' ''rg'') (SetFillColor L r g b f)
       \<and> textColor (SetTextColor L r g b f) = colorString L r g b ''g'' ''rg''
       \<and> lMargin (SetMargins left top' right f) = left
       \<and> lMargin (SetLeftMargin left f) = left
       \<and> x (SetX x' f) = (if 0 \<le> x' then x' else w f + x')
       \<and> y (SetY y' f) = (if 0 \<le> y' then y' else h f + y')"
proof -
  have "map_option drawColor (SetDrawColor L r g b f)
          = map_option (\<lambda>f'. colorString L r g b ''G'' ''RG'') (SetDrawColor L r g b f)"
    by (cases "index (pages f) (page f)") (auto simp: SetDrawColor_def out_def Let_def)
  moreover have "map_option fillColor (SetFillColor L r g b f)
          = map_option (\<lambda>f'. colorString L r g b ''g'' ''rg'') (SetFillColor L r g b f)"
    by (cases "index (pages f) (page f)") (auto simp: SetFillColor_def out_def Let_def)
  moreover have "lMargin (SetLeftMargin left f) = left"
    by (simp add: SetLeftMargin_def Let_def)
  ultimately show ?thesis
    using assms
    by (simp add: CellFormat_def Cell_def AddPage_def AddPageFormat_def SetFont_def AddFont_def
        SetDisplayMode_def Image_def Close_def Output_def SetTextColor_def SetMargins_def
        SetX_def SetY_def Let_def)
qed

theorem latched_error_guards_witness:
  "err (New lib0 [] ''xx'' [] []) \<noteq> None
   \<and> CellFormat lib0 new_hooks 40 10 ''Hello'' ''1'' 1 ''C'' True 0 [] (New lib0 [] ''xx'' [] [])
       = Some (New lib0 [] ''xx'' [] [])
   \<and> AddPage lib0 new_hooks (New lib0 [] ''xx'' [] []) = Some (New lib0 [] ''xx'' [] [])
   \<and> Close lib0 new_hooks (New lib0 [] ''xx'' [] []) = Some (New lib0 [] ''xx'' [] [])
   \<and> Output lib0 new_hooks wr_all (New lib0 [] ''xx'' [] [])
       = Some (New lib0 [] ''xx'' [] [], [], Some ''Incorrect unit xx'')
   \<and> map_option drawColor (SetDrawColor lib0 0 128 255 (New lib0 [] ''xx'' [] []))
       = Some ''0.000 0.502 1.000 RG''
   \<and> x (SetX (- 5) (New lib0 [] ''xx'' [] [])) = - 5"
proof -
  have e: "err (New lib0 [] ''xx'' [] []) = Some ''Incorrect unit xx''"
    by code_simp
  then have "err (New lib0 [] ''xx'' [] []) \<noteq> None"
    by simp
  note g = latched_error_guards[OF this, where L = lib0 and H = new_hooks and w' = 40 and h' = 10
      and txtStr = "''Hello''" and borderStr = "''1''" and ln' = 1 and alignStr = "''C''"
      and fill = True and link = 0 and linkStr = "[]" and wr = wr_all
      and r = 0 and g = 128 and b = 255 and x' = "- 5"] e
  have c: "colorString lib0 0 128 255 ''G'' ''RG'' = ''0.000 0.502 1.000 RG''"
    by code_simp
  have s: "SetDrawColor lib0 0 128 255 (New lib0 [] ''xx'' [] []) \<noteq> None"
    by code_simp
  have w0: "w (New lib0 [] ''xx'' [] []) = 0"
    by code_simp
  from g e c s w0 show ?thesis by auto
qed

subsection \<open>Writing the document twice\<close>

lemma WriteTo_all:
  "wr buf = (length buf, None) \<Longrightarrow> WriteTo wr buf = Some ([], buf, None)"
  by (simp add: WriteTo_def)

text \<open>
  Claim C2, as stated, fails: the first \<^verbatim>\<open>Output\<close> of a closed document writes the 666
  bytes of the document, the second one writes nothing.
\<close>

theorem Output_twice_differs:
  "(case Close lib0 new_hooks (SetCompression False (New lib0 [] [] [] [])) of
      None \<Rightarrow> False
    | Some f \<Rightarrow>
        state f = 3 \<and> err f = None
        \<and> (case Output lib0 new_hooks wr_all f of
             None \<Rightarrow> False
           | Some (f1, out1, e1) \<Rightarrow>
               length out1 = 666 \<and> take 8 out1 = ''%PDF-1.3'' \<and> e1 = None
               \<and> map_option (\<lambda>(f2, out2, e2). (out2, e2)) (Output lib0 new_hooks wr_all f1)
                   = Some ([], None)))"
  by code_simp

text \<open>
  Claim C2, amended. For a closed document with no latched error and a writer that
  accepts what it is given, \<^verbatim>\<open>Output\<close> writes the whole buffer and leaves it empty, and
  an \<^verbatim>\<open>Output\<close> that follows writes no byte: the two outputs are the same only if the
  buffer was empty.
\<close>

theorem Output_drains_buffer:
  assumes "state f = 3" and "err f = None" and "\<And>buf. wr buf = (length buf, None)"
  shows "Output L H wr f = Some (f\<lparr>buffer := []\<rparr>, buffer f, None)
       \<and> Output L H wr (f\<lparr>buffer := []\<rparr>) = Some (f\<lparr>buffer := []\<rparr>, [], None)"
  using assms by (simp add: Output_def WriteTo_def Let_def)

theorem Output_drains_buffer_witness:
  "(\<forall>buf. wr_all buf = (length buf, None))
   \<and> (\<exists>f. Close lib0 new_hooks (SetCompression False (New lib0 [] [] [] [])) = Some f
          \<and> state f = 3 \<and> err f = None \<and> length (buffer f) = 666
          \<and> Output lib0 new_hooks wr_all f = Some (f\<lparr>buffer := []\<rparr>, buffer f, None)
          \<and> Output lib0 new_hooks wr_all (f\<lparr>buffer := []\<rparr>) = Some (f\<lparr>buffer := []\<rparr>, [], None))"
proof -
  have w: "\<And>buf. wr_all buf = (length buf, None)"
    by (simp add: wr_all_def)
  have "case Close lib0 new_hooks (SetCompression False (New lib0 [] [] [] [])) of
          None \<Rightarrow> False
        | Some f \<Rightarrow> state f = 3 \<and> err f = None \<and> length (buffer f) = 666"
    by code_simp
  then obtain f where f: "Close lib0 new_hooks (SetCompression False (New lib0 [] [] [] [])) = Some f"
      "state f = 3" "err f = None" "length (buffer f) = 666"
    by (auto split: option.splits)
  from Output_drains_buffer[OF f(2,3) w, of lib0 new_hooks] f w
  show ?thesis by blast
qed

subsection \<open>What the serialiser changes\<close>

text \<open>
  Outside a page (\<open>state f \<noteq> 2\<close>) a line goes to the end of the main buffer; the
  relation \<open>ser f f'\<close> says that \<open>f'\<close> comes from \<open>f\<close> by appending to the main buffer and
  numbering objects, with the same state and pages.
\<close>

lemma out_buffer: "state f \<noteq> 2 \<Longrightarrow> out s f = Some (f\<lparr>buffer := buffer f @ s @ newline\<rparr>)"
  by (simp add: out_def)

lemma out_SomeD:
  "out s f = Some f' \<Longrightarrow> state f \<noteq> 2 \<Longrightarrow> f' = f\<lparr>buffer := buffer f @ s @ newline\<rparr>"
  by (simp add: out_def)

lemma newobj_SomeD:
  "newobj f = Some f' \<Longrightarrow> state f \<noteq> 2 \<Longrightarrow>
   f' = f\<lparr>n := n f + 1,
          offsets := (offsets f @ replicate (nat (n f + 1 + 1 - int (length (offsets f)))) 0)
                       [nat (n f + 1) := int (length (buffer f))],
          buffer := buffer f @ itoa (n f + 1) @ '' 0 obj'' @ newline\<rparr>"
  by (auto simp: newobj_def out_def store_def Let_def split: if_splits)

lemma forM_append:
  "forM (as @ bs) body s = Option.bind (forM as body s) (forM bs body)"
  by (induction as arbitrary: s) (auto split: bind_splits)

definition ser :: "'r Fpdf \<Rightarrow> 'r Fpdf \<Rightarrow> bool" where
  "ser f f' \<longleftrightarrow> state f' = state f \<and> page f' = page f \<and> n f \<le> n f'
      \<and> (\<exists>t. buffer f' = buffer f @ t)
      \<and> pages f' = pages f \<and> pageLinks f' = pageLinks f \<and> pageSizes f' = pageSizes f
      \<and> pdfVersion f' = pdfVersion f \<and> compress f' = compress f \<and> links f' = links f
      \<and> k f' = k f"

lemma ser_refl: "ser f f"
  by (simp add: ser_def)

lemma ser_trans: "ser f g \<Longrightarrow> ser g f' \<Longrightarrow> ser f f'"
  by (auto simp: ser_def)

lemma ser_state: "ser f f' \<Longrightarrow> state f \<noteq> 2 \<Longrightarrow> state f' \<noteq> 2"
  by (simp add: ser_def)

lemma out_ser: "out s f = Some f' \<Longrightarrow> state f \<noteq> 2 \<Longrightarrow> ser f f'"
  by (auto simp: ser_def dest!: out_SomeD)

lemma newobj_ser: "newobj f = Some f' \<Longrightarrow> state f \<noteq> 2 \<Longrightarrow> ser f f'"
  by (auto simp: ser_def dest!: newobj_SomeD)

lemma putstream_ser: "putstream b f = Some f' \<Longrightarrow> state f \<noteq> 2 \<Longrightarrow> ser f f'"
  by (auto simp: putstream_def ser_def split: bind_splits dest!: out_SomeD)

lemma forM_ser:
  assumes "\<And>a g g'. body a g = Some g' \<Longrightarrow> state g \<noteq> 2 \<Longrightarrow> ser g g'"
  shows "forM as body f = Some f' \<Longrightarrow> state f \<noteq> 2 \<Longrightarrow> ser f f'"
proof (induction as arbitrary: f)
  case Nil
  then show ?case by (simp add: ser_refl)
next
  case (Cons a as)
  from Cons.prems(1) obtain g where g: "body a f = Some g" "forM as body g = Some f'"
    by (auto split: bind_splits)
  have 1: "ser f g" by (rule assms[OF g(1) Cons.prems(2)])
  have 2: "ser g f'" by (rule Cons.IH[OF g(2) ser_state[OF 1 Cons.prems(2)]])
  show ?case by (rule ser_trans[OF 1 2])
qed

lemma for_return_ser:
  assumes "\<And>a g g' r. body a g = Some (g', r) \<Longrightarrow> state g \<noteq> 2 \<Longrightarrow> ser g g'"
  shows "for_return as body f = Some (f', r) \<Longrightarrow> state f \<noteq> 2 \<Longrightarrow> ser f f'"
proof (induction as arbitrary: f)
  case Nil
  then show ?case by (simp add: ser_refl)
next
  case (Cons a as)
  from Cons.prems(1) obtain g r' where g: "body a f = Some (g, r')"
      and rest: "if r' then f' = g else for_return as body g = Some (f', r)"
    by (auto split: bind_splits if_splits)
  have 1: "ser f g" by (rule assms[OF g Cons.prems(2)])
  show ?case
  proof (cases r')
    case True
    with rest 1 show ?thesis by simp
  next
    case False
    with rest have "for_return as body g = Some (f', r)" by simp
    then have "ser g f'" by (rule Cons.IH[OF _ ser_state[OF 1 Cons.prems(2)]])
    with 1 show ?thesis by (rule ser_trans)
  qed
qed

lemma newobj_buffer:
  "state f \<noteq> 2 \<Longrightarrow>
   newobj f =
     (if 0 \<le> n f + 1
      then Some (f\<lparr>n := n f + 1,
                   offsets := (offsets f @ replicate (nat (n f + 1 + 1 - int (length (offsets f)))) 0)
                                [nat (n f + 1) := int (length (buffer f))],
                   buffer := buffer f @ itoa (n f + 1) @ '' 0 obj'' @ newline\<rparr>)
      else None)"
  by (auto simp: newobj_def out_def store_def Let_def)

definition apps :: "'r Fpdf \<Rightarrow> 'r Fpdf \<Rightarrow> string \<Rightarrow> bool" where
  \<comment> \<open>\<open>f'\<close> is \<open>f\<close> with the text \<open>t\<close> appended to the main buffer\<close>
  "apps f f' t \<longleftrightarrow> f' = f\<lparr>buffer := buffer f @ t\<rparr>"

lemma apps_refl: "apps f f []"
  by (simp add: apps_def)

lemma apps_trans: "apps f g s \<Longrightarrow> apps g f' t \<Longrightarrow> apps f f' (s @ t)"
  by (simp add: apps_def)

lemma apps_state: "apps f f' t \<Longrightarrow> state f' = state f"
  by (simp add: apps_def)

lemma apps_ser: "apps f f' t \<Longrightarrow> ser f f'"
  by (auto simp: apps_def ser_def)

lemma out_apps: "out s f = Some f' \<Longrightarrow> state f \<noteq> 2 \<Longrightarrow> apps f f' (s @ newline)"
  by (simp add: apps_def out_def)

lemma putstream_apps:
  "putstream b f = Some f' \<Longrightarrow> state f \<noteq> 2 \<Longrightarrow>
   apps f f' (''stream'' @ newline @ b @ newline @ ''endstream'' @ newline)"
  by (simp add: putstream_def out_buffer apps_def)

lemma forM_apps:
  assumes "\<And>a g g'. body a g = Some g' \<Longrightarrow> state g \<noteq> 2 \<Longrightarrow> \<exists>t. apps g g' t"
  shows "forM as body f = Some f' \<Longrightarrow> state f \<noteq> 2 \<Longrightarrow> \<exists>t. apps f f' t"
proof (induction as arbitrary: f)
  case Nil
  then have "apps f f' []" by (simp add: apps_def)
  then show ?case ..
next
  case (Cons a as)
  from Cons.prems(1) obtain g where g: "body a f = Some g" "forM as body g = Some f'"
    by (auto split: bind_splits)
  from assms[OF g(1) Cons.prems(2)] obtain s where 1: "apps f g s" ..
  then have "state g \<noteq> 2" using Cons.prems(2) by (simp add: apps_def)
  from Cons.IH[OF g(2) this] obtain t where "apps g f' t" ..
  with 1 show ?case by (blast intro: apps_trans)
qed

lemma cond_out:
  "state g \<noteq> 2 \<Longrightarrow>
   (if c then out s g else Some g) = Some (g\<lparr>buffer := buffer g @ (if c then s @ newline else [])\<rparr>)"
  by (simp add: out_buffer)

lemma case_out:
  "state g \<noteq> 2 \<Longrightarrow>
   (case v of Some a \<Rightarrow> out (s a) g | None \<Rightarrow> Some g)
     = Some (g\<lparr>buffer := buffer g @ (case v of Some a \<Rightarrow> s a @ newline | None \<Rightarrow> [])\<rparr>)"
  by (cases v) (simp_all add: out_buffer)

lemma annots_out:
  "state g \<noteq> 2 \<Longrightarrow>
   (if 0 < length pls then do { annots \<leftarrow> concatM pls piece; out (a @ annots @ b) g }
    else Some g)
     = map_option (\<lambda>t. g\<lparr>buffer := buffer g @ t\<rparr>)
         (if 0 < length pls then do { annots \<leftarrow> concatM pls piece; Some (a @ annots @ b @ newline) }
          else Some [])"
  by (cases "concatM pls piece") (simp_all add: out_buffer)

lemma link_annot_frame [simp]:
  "link_annot L hPt' (f\<lparr>buffer := b\<rparr>) = link_annot L hPt' f"
  "link_annot L hPt' (f\<lparr>n := a\<rparr>) = link_annot L hPt' f"
  "link_annot L hPt' (f\<lparr>offsets := c\<rparr>) = link_annot L hPt' f"
  by (simp_all add: link_annot_def fun_eq_iff Let_def)

lemma bind_if:
  "Option.bind (if c then a else b) g = (if c then Option.bind a g else Option.bind b g)"
  by simp

lemma put_page_eq:
  assumes st: "state f \<noteq> 2" and n0: "0 \<le> n f + 1"
  shows "map_option (\<lambda>f'. f'\<lparr>offsets := offs\<rparr>) (put_page L hPt' m f)
       = map_option (\<lambda>txt. f\<lparr>n := n f + 2, buffer := buffer f @ txt, offsets := offs\<rparr>)
           (page_objects L hPt' (n f + 1) m f)"
proof -
  note defs = put_page_def page_objects_def page_dict_lines_def page_stream_lines_def
    newobj_buffer out_buffer case_out putstream_def Let_def add.assoc bind_if
  show ?thesis
  proof (cases "index (pageLinks f) m")
    case None
    then show ?thesis
      using st n0 by (simp add: defs)
  next
    case pl: (Some pls)
    show ?thesis
    proof (cases "pls = []")
      case True
      show ?thesis
      proof (cases "index (pages f) m")
        case None
        then show ?thesis
          using st n0 pl True by (simp add: defs cong: if_cong)
      next
        case (Some p)
        then show ?thesis
          using st n0 pl True by (simp add: defs cong: if_cong)
      qed
    next
      case False
      show ?thesis
      proof (cases "concatM pls (link_annot L hPt' f)")
        case None
        then show ?thesis
          using st n0 pl False by (simp add: defs cong: if_cong)
      next
        case an: (Some annots)
        show ?thesis
        proof (cases "index (pages f) m")
          case None
          then show ?thesis
            using st n0 pl False an by (simp add: defs cong: if_cong)
        next
          case (Some p)
          then show ?thesis
            using st n0 pl False an by (simp add: defs cong: if_cong)
        qed
      qed
    qed
  qed
qed

lemma page_objects_frame:
  assumes "pages g = pages f" "pageLinks g = pageLinks f" "pageSizes g = pageSizes f"
    "pdfVersion g = pdfVersion f" "compress g = compress f" "links g = links f" "k g = k f"
  shows "page_objects L hPt' num m g = page_objects L hPt' num m f"
proof -
  have "link_annot L hPt' g = link_annot L hPt' f"
    using assms by (simp add: link_annot_def fun_eq_iff Let_def)
  then show ?thesis
    using assms
    by (simp add: page_objects_def page_dict_lines_def page_stream_lines_def cong: if_cong)
qed

lemma page_objects_ser: "ser f g \<Longrightarrow> page_objects L hPt' num m g = page_objects L hPt' num m f"
  by (rule page_objects_frame) (simp_all add: ser_def)

lemma pages_text_ser: "ser f g \<Longrightarrow> pages_text L hPt' num ms g = pages_text L hPt' num ms f"
  by (induction ms arbitrary: num) (simp_all add: page_objects_ser)

lemma put_page_SomeD:
  assumes "put_page L hPt' m f = Some f'" and st: "state f \<noteq> 2"
  shows "\<exists>txt. page_objects L hPt' (n f + 1) m f = Some txt
           \<and> f'\<lparr>offsets := offs\<rparr> = f\<lparr>n := n f + 2, buffer := buffer f @ txt, offsets := offs\<rparr>"
proof -
  from assms(1) obtain f1 where "newobj f = Some f1"
    by (auto simp: put_page_def split: bind_splits)
  then have n0: "0 \<le> n f + 1"
    using st by (simp add: newobj_buffer split: if_splits)
  from put_page_eq[OF st n0, of offs L hPt' m] assms(1) show ?thesis
    by (cases "page_objects L hPt' (n f + 1) m f") auto
qed

lemma upd_offsets_eqD:
  assumes "f'\<lparr>offsets := offs\<rparr> = f\<lparr>n := a, buffer := b, offsets := offs\<rparr>"
  shows "n f' = a" "buffer f' = b" "state f' = state f" "page f' = page f" "err f' = err f"
    "pages f' = pages f" "pageLinks f' = pageLinks f" "pageSizes f' = pageSizes f"
    "pdfVersion f' = pdfVersion f" "compress f' = compress f" "links f' = links f" "k f' = k f"
    "fonts f' = fonts f" "fontFiles f' = fontFiles f" "images f' = images f" "diffs f' = diffs f"
proof -
  have "n (f'\<lparr>offsets := offs\<rparr>) = a" "buffer (f'\<lparr>offsets := offs\<rparr>) = b"
    "state (f'\<lparr>offsets := offs\<rparr>) = state f" "page (f'\<lparr>offsets := offs\<rparr>) = page f"
    "err (f'\<lparr>offsets := offs\<rparr>) = err f"
    "pages (f'\<lparr>offsets := offs\<rparr>) = pages f" "pageLinks (f'\<lparr>offsets := offs\<rparr>) = pageLinks f"
    "pageSizes (f'\<lparr>offsets := offs\<rparr>) = pageSizes f"
    "pdfVersion (f'\<lparr>offsets := offs\<rparr>) = pdfVersion f"
    "compress (f'\<lparr>offsets := offs\<rparr>) = compress f" "links (f'\<lparr>offsets := offs\<rparr>) = links f"
    "k (f'\<lparr>offsets := offs\<rparr>) = k f"
    "fonts (f'\<lparr>offsets := offs\<rparr>) = fonts f" "fontFiles (f'\<lparr>offsets := offs\<rparr>) = fontFiles f"
    "images (f'\<lparr>offsets := offs\<rparr>) = images f" "diffs (f'\<lparr>offsets := offs\<rparr>) = diffs f"
    unfolding assms by simp_all
  then show "n f' = a" "buffer f' = b" "state f' = state f" "page f' = page f" "err f' = err f"
    "pages f' = pages f" "pageLinks f' = pageLinks f" "pageSizes f' = pageSizes f"
    "pdfVersion f' = pdfVersion f" "compress f' = compress f" "links f' = links f" "k f' = k f"
    "fonts f' = fonts f" "fontFiles f' = fontFiles f" "images f' = images f" "diffs f' = diffs f"
    by simp_all
qed

lemma put_page_ser: "put_page L hPt' m f = Some f' \<Longrightarrow> state f \<noteq> 2 \<Longrightarrow> ser f f'"
proof -
  assume a: "put_page L hPt' m f = Some f'" "state f \<noteq> 2"
  from put_page_SomeD[OF a, of "[]"] obtain tx where
    "f'\<lparr>offsets := []\<rparr> = f\<lparr>n := n f + 2, buffer := buffer f @ tx, offsets := []\<rparr>"
    by blast
  from upd_offsets_eqD[OF this] show ?thesis
    by (simp add: ser_def)
qed

lemma put_pages_text:
  "forM ms (put_page L hPt') f = Some f' \<Longrightarrow> state f \<noteq> 2 \<Longrightarrow>
   \<exists>txt. pages_text L hPt' (n f + 1) ms f = Some txt
        \<and> buffer f' = buffer f @ txt \<and> n f' = n f + 2 * int (length ms) \<and> ser f f'"
proof (induction ms arbitrary: f)
  case Nil
  then show ?case by (simp add: ser_refl)
next
  case (Cons m ms)
  from Cons.prems(1) obtain g where g: "put_page L hPt' m f = Some g"
      and rest: "forM ms (put_page L hPt') g = Some f'"
    by (auto split: bind_splits)
  from put_page_SomeD[OF g Cons.prems(2), of "[]"] obtain t where
    t: "page_objects L hPt' (n f + 1) m f = Some t"
    and eq: "g\<lparr>offsets := []\<rparr> = f\<lparr>n := n f + 2, buffer := buffer f @ t, offsets := []\<rparr>"
    by blast
  note gf = upd_offsets_eqD[OF eq]
  have sg: "ser f g" by (rule put_page_ser[OF g Cons.prems(2)])
  have stg: "state g \<noteq> 2" using gf(3) Cons.prems(2) by simp
  from Cons.IH[OF rest stg] obtain ts where
    ts: "pages_text L hPt' (n g + 1) ms g = Some ts"
    and b: "buffer f' = buffer g @ ts" and nn: "n f' = n g + 2 * int (length ms)"
    and s2: "ser g f'"
    by blast
  have "pages_text L hPt' (n f + 1 + 2) ms f = Some ts"
    using ts gf(1) pages_text_ser[OF sg] by (simp add: add.commute add.left_commute)
  then show ?case
    using t b nn gf(1,2) ser_trans[OF sg s2] by simp
qed

subsection \<open>A small calculus for what a sequence of operations keeps\<close>

text \<open>
  \<open>keeps R f m\<close>: if the computation \<open>m\<close> returns a document, it is related to \<open>f\<close> by \<open>R\<close>;
  \<open>keeps2\<close> is the same for a computation that also returns a flag.
\<close>

definition keeps :: "('s \<Rightarrow> 's \<Rightarrow> bool) \<Rightarrow> 's \<Rightarrow> 's option \<Rightarrow> bool" where
  "keeps R f m \<longleftrightarrow> (case m of None \<Rightarrow> True | Some g \<Rightarrow> R f g)"

definition keeps2 :: "('s \<Rightarrow> 's \<Rightarrow> bool) \<Rightarrow> 's \<Rightarrow> ('s \<times> 'b) option \<Rightarrow> bool" where
  "keeps2 R f m \<longleftrightarrow> (case m of None \<Rightarrow> True | Some (g, r) \<Rightarrow> R f g)"

lemma keepsD: "keeps R f m \<Longrightarrow> m = Some g \<Longrightarrow> R f g"
  by (simp add: keeps_def)

lemma keeps2D: "keeps2 R f m \<Longrightarrow> m = Some (g, r) \<Longrightarrow> R f g"
  by (simp add: keeps2_def)

lemma keeps_Some: "R f g \<Longrightarrow> keeps R f (Some g)"
  by (simp add: keeps_def)

lemma keeps2_Some: "R f g \<Longrightarrow> keeps2 R f (Some (g, r))"
  by (simp add: keeps2_def)

lemma keeps_None: "keeps R f None"
  by (simp add: keeps_def)

lemma keeps2_None: "keeps2 R f None"
  by (simp add: keeps2_def)

lemma keeps_bind:
  "keeps R f m \<Longrightarrow> (\<And>g. R f g \<Longrightarrow> keeps R f (cont g)) \<Longrightarrow> keeps R f (m \<bind> cont)"
  by (cases m) (simp_all add: keeps_def)

lemma keeps2_bind:
  "keeps R f m \<Longrightarrow> (\<And>g. R f g \<Longrightarrow> keeps2 R f (cont g)) \<Longrightarrow> keeps2 R f (m \<bind> cont)"
  by (cases m) (simp_all add: keeps_def keeps2_def)

lemma keeps_bind2:
  "keeps2 R f m \<Longrightarrow> (\<And>g r. R f g \<Longrightarrow> keeps R f (cont (g, r))) \<Longrightarrow> keeps R f (m \<bind> cont)"
  by (cases m) (auto simp: keeps_def keeps2_def)

lemma keeps2_bind2:
  "keeps2 R f m \<Longrightarrow> (\<And>g r. R f g \<Longrightarrow> keeps2 R f (cont (g, r))) \<Longrightarrow> keeps2 R f (m \<bind> cont)"
  by (cases m) (auto simp: keeps2_def)

lemma keeps_bind_val:
  fixes v :: "'a list option"
  shows "(\<And>a. keeps R f (cont a)) \<Longrightarrow> keeps R f (v \<bind> cont)"
  by (cases v) (simp_all add: keeps_def)

lemma keeps2_bind_val:
  fixes v :: "'a list option"
  shows "(\<And>a. keeps2 R f (cont a)) \<Longrightarrow> keeps2 R f (v \<bind> cont)"
  by (cases v) (simp_all add: keeps2_def)

lemma keeps_if:
  "(c \<Longrightarrow> keeps R f a) \<Longrightarrow> (\<not> c \<Longrightarrow> keeps R f b) \<Longrightarrow> keeps R f (if c then a else b)"
  by simp

lemma keeps2_if:
  "(c \<Longrightarrow> keeps2 R f a) \<Longrightarrow> (\<not> c \<Longrightarrow> keeps2 R f b) \<Longrightarrow> keeps2 R f (if c then a else b)"
  by simp

lemma keeps_forM:
  assumes "\<And>a g. R f g \<Longrightarrow> keeps R f (body a g)"
  shows "R f g \<Longrightarrow> keeps R f (forM as body g)"
proof (induction as arbitrary: g)
  case Nil
  then show ?case by (simp add: keeps_def)
next
  case (Cons a as)
  show ?case
    unfolding forM.simps
    by (rule keeps_bind[OF assms[OF Cons.prems]]) (rule Cons.IH)
qed

lemma keeps2_for_return:
  assumes "\<And>a g. R f g \<Longrightarrow> keeps2 R f (body a g)"
  shows "R f g \<Longrightarrow> keeps2 R f (for_return as body g)"
proof (induction as arbitrary: g)
  case Nil
  then show ?case by (simp add: keeps2_def)
next
  case (Cons a as)
  show ?case
    unfolding for_return.simps
    apply (rule keeps2_bind2[OF assms[OF Cons.prems]])
    apply (simp only: prod.case)
    apply (rule keeps2_if)
     apply (erule keeps2_Some)
    apply (erule Cons.IH)
    done
qed

text \<open>The serialiser's operations, for a document outside a page.\<close>

lemma ser_out: "state f \<noteq> 2 \<Longrightarrow> ser f g \<Longrightarrow> keeps ser f (out s g)"
  by (auto simp: keeps_def out_def ser_def)

lemma ser_newobj: "state f \<noteq> 2 \<Longrightarrow> ser f g \<Longrightarrow> keeps ser f (newobj g)"
  by (auto simp: keeps_def newobj_def out_def store_def ser_def Let_def)

lemma ser_putstream: "state f \<noteq> 2 \<Longrightarrow> ser f g \<Longrightarrow> keeps ser f (putstream b g)"
  unfolding putstream_def
  by (intro keeps_bind ser_out) simp_all

lemma ser_update:
  "ser f g \<Longrightarrow> ser f (g\<lparr>fonts := a\<rparr>)"
  "ser f g \<Longrightarrow> ser f (g\<lparr>fontFiles := b\<rparr>)"
  "ser f g \<Longrightarrow> ser f (g\<lparr>images := c\<rparr>)"
  "ser f g \<Longrightarrow> ser f (g\<lparr>err := e\<rparr>)"
  "ser f g \<Longrightarrow> ser f (g\<lparr>offsets := d\<rparr>)"
  by (simp_all add: ser_def)

lemmas ser_rules =
  keeps_if keeps2_if keeps_bind keeps2_bind keeps_Some keeps2_Some keeps_None keeps2_None
  ser_out ser_newobj ser_putstream ser_update

lemma keeps_bind_int:
  fixes v :: "int option"
  shows "(\<And>a. keeps R f (cont a)) \<Longrightarrow> keeps R f (v \<bind> cont)"
  by (cases v) (simp_all add: keeps_def)

lemma keeps_case_option:
  "(v = None \<Longrightarrow> keeps R f a) \<Longrightarrow> (\<And>z. v = Some z \<Longrightarrow> keeps R f (b z)) \<Longrightarrow>
   keeps R f (case v of None \<Rightarrow> a | Some z \<Rightarrow> b z)"
  by (cases v) simp_all

lemma keeps2_case_sum:
  "(\<And>e. v = Inl e \<Longrightarrow> keeps2 R f (a e)) \<Longrightarrow> (\<And>z. v = Inr z \<Longrightarrow> keeps2 R f (b z)) \<Longrightarrow>
   keeps2 R f (case v of Inl e \<Rightarrow> a e | Inr z \<Rightarrow> b z)"
  by (cases v) simp_all

lemmas ser_rules' = ser_rules keeps_bind_val keeps2_bind_val keeps_bind_int keeps_case_option
  keeps2_case_sum

lemma ser_put_diff: "state f \<noteq> 2 \<Longrightarrow> ser f g \<Longrightarrow> keeps ser f (put_diff d g)"
  unfolding put_diff_def
  by (intro ser_rules) simp_all

lemma ser_put_font: "state f \<noteq> 2 \<Longrightarrow> ser f g \<Longrightarrow> keeps2 ser f (put_font L nf entry g)"
  unfolding put_font_def Let_def
  apply (cases entry)
  apply (simp only: prod.case)
  apply (intro ser_rules'; assumption?)
  done

lemma ser_put_fontfile:
  "state f \<noteq> 2 \<Longrightarrow> ser f g \<Longrightarrow> keeps2 ser f (put_fontfile L entry g)"
  unfolding put_fontfile_def Let_def
  apply (cases entry)
  apply (simp only: prod.case)
  apply (intro ser_rules'; assumption?)
  done

lemma ser_putfonts: "state f \<noteq> 2 \<Longrightarrow> ser f g \<Longrightarrow> keeps ser f (putfonts L g)"
  unfolding putfonts_def Let_def
  apply (rule keeps_if)
   apply (erule keeps_Some)
  apply (rule keeps_bind)
   apply (rule keeps_forM[where R = ser])
    apply (erule (1) ser_put_diff)
   apply assumption
  apply (rule keeps_bind2)
   apply (rule keeps2_for_return[where R = ser])
    apply (erule (1) ser_put_fontfile)
   apply assumption
  apply (simp only: prod.case)
  apply (rule keeps_if)
   apply (erule keeps_Some)
  apply (rule keeps_bind2)
   apply (rule keeps2_for_return[where R = ser])
    apply (erule (1) ser_put_font)
   apply assumption
  apply (simp only: prod.case)
  apply (erule keeps_Some)
  done

lemma ser_image_dict: "state f \<noteq> 2 \<Longrightarrow> ser f g \<Longrightarrow> keeps ser f (image_dict L info g)"
  unfolding image_dict_def
  by (intro ser_rules'; assumption?)

lemma ser_putimage:
  "state f \<noteq> 2 \<Longrightarrow> ser f g \<Longrightarrow> keeps2 ser f (putimage L info g)"
proof (induction L info g rule: putimage.induct)
  case (1 L info g)
  note st = "1.prems"(1) and sg = "1.prems"(2)
  have nested: "keeps2 ser f (putimage L sm g')" if "ser f g'"
      "length (case smask_img (info\<lparr>n_img := nn\<rparr>) of None \<Rightarrow> [] | Some m \<Rightarrow> m) > 0"
      "sm = \<lparr> data_img = (case smask_img (info\<lparr>n_img := nn\<rparr>) of None \<Rightarrow> [] | Some m \<Rightarrow> m),
              smask_img = None, i_img = 0, n_img = 0, w_img = w_img (info\<lparr>n_img := nn\<rparr>),
              h_img = h_img (info\<lparr>n_img := nn\<rparr>), cs_img = ''DeviceGray'', pal_img = [],
              bpc_img = 8, f_img = f_img (info\<lparr>n_img := nn\<rparr>),
              dp_img = ''/Predictor 15 /Colors 1 /BitsPerComponent 8 /Columns ''
                       @ itoa (ftoi L (w_img (info\<lparr>n_img := nn\<rparr>))),
              trns_img = [] \<rparr>" for sm g' nn
  proof -
    have "keeps2 ser f (putimage L sm g')"
      apply (subst putimage.simps)
      unfolding Let_def
      apply (intro keeps2_bind ser_newobj ser_image_dict st that(1) keeps2_Some keeps_if keeps_Some
          ser_out ser_putstream; (assumption | simp add: that(3))?)
      done
    then show ?thesis .
  qed
  show ?case
    apply (subst putimage.simps)
    unfolding Let_def
    apply (rule keeps2_bind[OF ser_newobj[OF st sg]])
    apply (rule keeps2_bind[OF ser_image_dict[OF st]], assumption)
    apply (rule keeps2_bind)
     apply (rule keeps_if)
      apply (rule keeps_bind2)
       apply (rule nested; (assumption | rule refl))
      apply (simp only: prod.case)
      apply (erule keeps_Some)
     apply (erule keeps_Some)
    apply (rule keeps2_bind)
     apply (intro ser_rules st; assumption?)
    apply (erule keeps2_Some)
    done
qed

lemma ser_put_image: "state f \<noteq> 2 \<Longrightarrow> ser f g \<Longrightarrow> keeps ser f (put_image L entry g)"
  unfolding put_image_def Let_def
  apply (cases entry)
  apply (simp only: prod.case)
  apply (rule keeps_bind2)
   apply (erule (1) ser_putimage)
  apply (simp only: prod.case)
  apply (rule keeps_Some)
  apply (erule ser_update)
  done

lemma ser_putimages: "state f \<noteq> 2 \<Longrightarrow> ser f g \<Longrightarrow> keeps ser f (putimages L g)"
  unfolding putimages_def
  by (rule keeps_forM[where R = ser]) (erule (1) ser_put_image)

text \<open>Operations that only append to the main buffer.\<close>

definition appends :: "'r Fpdf \<Rightarrow> 'r Fpdf \<Rightarrow> bool" where
  "appends f g \<longleftrightarrow> (\<exists>t. g = f\<lparr>buffer := buffer f @ t\<rparr>)"

lemma appends_refl: "appends f f"
  unfolding appends_def by (rule exI[of _ "[]"]) simp

lemma app_out: "state f \<noteq> 2 \<Longrightarrow> appends f g \<Longrightarrow> keeps appends f (out s g)"
  by (auto simp: keeps_def out_def appends_def)

lemmas app_rules = keeps_if keeps_bind keeps_Some app_out

lemma app_putxobjectdict: "state f \<noteq> 2 \<Longrightarrow> appends f g \<Longrightarrow> keeps appends f (putxobjectdict g)"
proof -
  assume st: "state f \<noteq> 2" and a: "appends f g"
  have "keeps appends f (forM xs
          (\<lambda>entry f. out (''/I'' @ itoa (i_img (snd entry)) @ '' '' @ itoa (n_img (snd entry)) @ '' 0 R'') f) g)"
    for xs
    by (rule keeps_forM[where R = appends, OF _ a]) (erule app_out[OF st])
  from this[of "images g"] show ?thesis
    by (simp add: putxobjectdict_def)
qed

lemma app_putresourcedict: "state f \<noteq> 2 \<Longrightarrow> appends f g \<Longrightarrow> keeps appends f (putresourcedict g)"
proof -
  assume st: "state f \<noteq> 2" and a: "appends f g"
  have loop: "keeps appends f (forM xs
          (\<lambda>entry f. out (''/F'' @ itoa (I (snd entry)) @ '' '' @ itoa (N (snd entry)) @ '' 0 R'') f) g')"
    if "appends f g'" for xs g'
    by (rule keeps_forM[where R = appends, OF _ that]) (erule app_out[OF st])
  show ?thesis
    unfolding putresourcedict_def
    by (intro app_rules st a loop app_putxobjectdict; assumption?)
qed

lemma app_putinfo: "state f \<noteq> 2 \<Longrightarrow> appends f g \<Longrightarrow> keeps appends f (putinfo L g)"
  unfolding putinfo_def
  by (intro app_rules; assumption?)

lemma app_putcatalog: "state f \<noteq> 2 \<Longrightarrow> appends f g \<Longrightarrow> keeps appends f (putcatalog g)"
  unfolding putcatalog_def
  by (intro app_rules; assumption?)

lemma appendsD:
  "appends f g \<Longrightarrow> \<exists>t. buffer g = buffer f @ t \<and> state g = state f \<and> n g = n f
      \<and> offsets g = offsets f \<and> err g = err f \<and> ser f g"
  by (auto simp: appends_def ser_def)

end
